theory Spec2Isabelle
  imports Main "HOL-Library.Sublist"
begin

section \<open>The tournament creator (src/perfect-tournament-creator.ts)\<close>

text \<open>
  The script is one linear run: read the credential, the settings and the state, stop
  when tournaments were already created today, compute fourteen tournament definitions,
  submit them one after the other, write settings and state back when at least one
  submission succeeded, and leave with an exit code.

  Conventions of the embedding.
  \<^item> A JavaScript \<open>number\<close> is a double. The numbers of the script hold integers, and a
    number that holds an integer is the \<open>int\<close> it denotes. Counts, hours and time values
    stay far below \<open>2 ^ 53\<close>, where the arithmetic of doubles is exact; a day number comes
    from the settings file and need not, so the additions on day numbers round as the
    addition of doubles does (\<open>num_add\<close> below).
  \<^item> A JavaScript string is a \<open>string\<close>.
  \<^item> A thrown value is represented by the text \<open>String(error)\<close> gives for it.
  \<^item> The network, the clock, the environment and the two files are inputs of the run;
    what the run does to the outside (requests, delays, file writes) is an event trace.
  \<^item> The settings and the state that \<open>readJSON\<close> returns are records with every field
    of their interface present; a file that parses to \<open>null\<close> or lacks a field is not
    modelled.
  \<^item> \<open>writeJSON\<close> succeeds; a failing file system is not modelled.
  \<^item> Console output is informational and is left out.
\<close>

subsection \<open>JavaScript string built-ins used by the script\<close>

text \<open>\<open>String.prototype.includes\<close>: the pattern occurs at some position.\<close>

fun str_includes :: "string \<Rightarrow> string \<Rightarrow> bool" where
  "str_includes pat [] = (pat = [])"
| "str_includes pat (c # cs) = (prefix pat (c # cs) \<or> str_includes pat cs)"

text \<open>
  \<open>String.prototype.replace\<close> with a string pattern: the first occurrence, scanning
  from the left, is replaced and the rest of the string is kept. The replacement texts
  of the script (a type label, a decimal number) contain no \<open>$\<close>, so the
  \<open>$\<close>-patterns of the built-in play no role.
\<close>

fun replace :: "string \<Rightarrow> string \<Rightarrow> string \<Rightarrow> string" where
  "replace pat rep [] = (if pat = [] then rep else [])"
| "replace pat rep (c # cs) =
     (if prefix pat (c # cs) then rep @ drop (length pat) (c # cs)
      else c # replace pat rep cs)"

text \<open>White space and line terminators of \<open>String.prototype.trim\<close> among the 8-bit
  characters: TAB, LF, VT, FF, CR, SP and NBSP.\<close>

definition isWhiteSpace :: "char \<Rightarrow> bool" where
  "isWhiteSpace c = ((of_char c :: nat) \<in> {9, 10, 11, 12, 13, 32, 160})"

definition trim :: "string \<Rightarrow> string" where
  "trim s = rev (dropWhile isWhiteSpace (rev (dropWhile isWhiteSpace s)))"

text \<open>\<open>String(n)\<close> for an integer up to \<open>2 ^ 53\<close> in magnitude: its decimal digits, with
  a minus sign when negative. (Beyond \<open>2 ^ 53\<close> JavaScript writes the shortest digits
  that read back as the same double, and from \<open>10 ^ 21\<close> on an exponent; the texts of
  such numbers are not modelled.)\<close>

fun decimal :: "nat \<Rightarrow> string" where
  "decimal n = (if n < 10 then [''0123456789'' ! n]
                else decimal (n div 10) @ [''0123456789'' ! (n mod 10)])"

definition String :: "int \<Rightarrow> string" where
  "String i = (if i < 0 then CHR ''-'' # decimal (nat (- i)) else decimal (nat i))"

subsection \<open>Addition of numbers\<close>

text \<open>
  A double has 53 significant bits: every integer up to \<open>2 ^ 53\<close> in magnitude is a
  double, and a larger integer of \<open>b\<close> bits is one when it is a multiple of
  \<open>2 ^ (b - 53)\<close>. The sum of two doubles is their exact sum rounded to the nearest
  double, and to the one with the even significand when two are equally near.
  (A sum overflows to \<open>Infinity\<close> only near \<open>2 ^ 1024\<close>, which adding a number below 7 to
  a double never reaches.)
\<close>

text \<open>The number of bits of a positive integer.\<close>

function bitlen :: "int \<Rightarrow> nat" where
  "bitlen n = (if n \<le> 0 then 0 else Suc (bitlen (n div 2)))"
  by pat_completeness auto
termination
  by (relation "measure nat") auto

text \<open>The multiple of \<open>q\<close> nearest to \<open>n\<close>, the even multiple when two are equally near.\<close>

definition round_half_even :: "int \<Rightarrow> int \<Rightarrow> int" where
  "round_half_even q n =
     (let lo = n div q * q; r = n mod q
      in if 2 * r < q then lo
         else if 2 * r > q then lo + q
         else if even (n div q) then lo else lo + q)"

text \<open>The double nearest to a non-negative integer.\<close>

definition nearest_double :: "int \<Rightarrow> int" where
  "nearest_double n =
     (if n \<le> 2 ^ 53 then n else round_half_even (2 ^ (bitlen n - 53)) n)"

definition to_double :: "int \<Rightarrow> int" where
  "to_double x = (if x < 0 then - nearest_double (- x) else nearest_double x)"

text \<open>\<open>a + b\<close> on numbers that hold integers.\<close>

definition num_add :: "int \<Rightarrow> int \<Rightarrow> int" where
  "num_add a b = to_double (a + b)"

subsection \<open>Names and descriptions\<close>

datatype tournament_type = Day | Night

fun type_label :: "tournament_type \<Rightarrow> string" where
  "type_label Day = ''Day''"
| "type_label Night = ''Night''"

definition buildTournamentName :: "int \<Rightarrow> tournament_type \<Rightarrow> string" where
  "buildTournamentName dayNum type =
     ''LMAO '' @ type_label type @ '' '' @ [CHR 0x27] @ String dayNum @ [CHR 0x27]"

definition buildDescription :: "int \<Rightarrow> tournament_type \<Rightarrow> string \<Rightarrow> string" where
  "buildDescription dayNum type template =
     replace ''{DAY_NUM}'' (String dayNum) (replace ''{TYPE}'' (type_label type) template)"

subsection \<open>The token validator\<close>

text \<open>The character class \<open>[a-zA-Z0-9_-]\<close> of the token pattern.\<close>

definition isAlnum :: "char \<Rightarrow> bool" where
  "isAlnum c = (let n = (of_char c :: nat) in
     (97 \<le> n \<and> n \<le> 122) \<or> (65 \<le> n \<and> n \<le> 90) \<or> (48 \<le> n \<and> n \<le> 57))"

definition isTokenChar :: "char \<Rightarrow> bool" where
  "isTokenChar c = (isAlnum c \<or> c = CHR ''_'' \<or> c = CHR ''-'')"

text \<open>\<open>/^[a-zA-Z0-9_-]+$/.test(token)\<close>: one or more characters, each of the class.\<close>

definition tokenRegex_test :: "string \<Rightarrow> bool" where
  "tokenRegex_test token = (token \<noteq> [] \<and> list_all isTokenChar token)"

definition validateOAuthToken :: "string \<Rightarrow> bool" where
  "validateOAuthToken token =
     (if token = [] \<or> trim token = [] then False
      else if str_includes ''***'' token \<or> str_includes ''YOUR_TOKEN'' token
              \<or> str_includes ''PLACEHOLDER'' token then False
      else tokenRegex_test token \<and> length token > 10)"

subsection \<open>The Date built-ins used by the script\<close>

text \<open>
  A \<open>Date\<close> is its time value, the milliseconds since 1970-01-01T00:00:00Z. The
  functions below follow the abstract operations of ECMAScript (\<open>Day\<close>,
  \<open>TimeWithinDay\<close>, \<open>MakeDay\<close>, \<open>MakeTime\<close>, \<open>MakeDate\<close>) on the proleptic
  Gregorian calendar. Time values are integers without the bound of 8.64e15 ms beyond
  which ECMAScript has an invalid date, on which \<open>toISOString\<close> throws a
  \<open>RangeError\<close>: the clock of a run and start hours from 0 to 23, as the settings are
  meant to hold, stay far inside the bound, and dates beyond it are not modelled.
\<close>

definition msPerDay :: int where
  "msPerDay = 86400000"

definition Day_of :: "int \<Rightarrow> int" where
  "Day_of t = t div msPerDay"

definition TimeWithinDay :: "int \<Rightarrow> int" where
  "TimeWithinDay t = t mod msPerDay"

text \<open>The day number of a calendar date (month 1 to 12), and back.\<close>

definition days_from_civil :: "int \<Rightarrow> int \<Rightarrow> int \<Rightarrow> int" where
  "days_from_civil y m d =
     (let y' = (if m \<le> 2 then y - 1 else y);
          era = y' div 400;
          yoe = y' mod 400;
          doy = (153 * (if m > 2 then m - 3 else m + 9) + 2) div 5 + d - 1;
          doe = yoe * 365 + yoe div 4 - yoe div 100 + doy
      in era * 146097 + doe - 719468)"

definition civil_from_days :: "int \<Rightarrow> int \<times> int \<times> int" where
  "civil_from_days z =
     (let z' = z + 719468;
          era = z' div 146097;
          doe = z' mod 146097;
          yoe = (doe - doe div 1460 + doe div 36524 - doe div 146096) div 365;
          doy = doe - (365 * yoe + yoe div 4 - yoe div 100);
          mp = (5 * doy + 2) div 153;
          d = doy - (153 * mp + 2) div 5 + 1;
          m = (if mp < 10 then mp + 3 else mp - 9);
          y = yoe + era * 400
      in (if m \<le> 2 then y + 1 else y, m, d))"

definition getUTCFullYear :: "int \<Rightarrow> int" where
  "getUTCFullYear t = fst (civil_from_days (Day_of t))"

text \<open>\<open>getUTCMonth\<close> counts months from 0.\<close>

definition getUTCMonth :: "int \<Rightarrow> int" where
  "getUTCMonth t = fst (snd (civil_from_days (Day_of t))) - 1"

definition getUTCDate :: "int \<Rightarrow> int" where
  "getUTCDate t = snd (snd (civil_from_days (Day_of t)))"

text \<open>\<open>MakeDay(year, month, date)\<close> with \<open>month\<close> counted from 0: months and days beyond
  their range carry over.\<close>

definition MakeDay :: "int \<Rightarrow> int \<Rightarrow> int \<Rightarrow> int" where
  "MakeDay year month date =
     days_from_civil (year + month div 12) (month mod 12 + 1) 1 + date - 1"

definition MakeTime :: "int \<Rightarrow> int \<Rightarrow> int \<Rightarrow> int \<Rightarrow> int" where
  "MakeTime hour minute sec ms = hour * 3600000 + minute * 60000 + sec * 1000 + ms"

definition MakeDate :: "int \<Rightarrow> int \<Rightarrow> int" where
  "MakeDate day time = day * msPerDay + time"

definition setUTCDate :: "int \<Rightarrow> int \<Rightarrow> int" where
  "setUTCDate t date =
     MakeDate (MakeDay (getUTCFullYear t) (getUTCMonth t) date) (TimeWithinDay t)"

text \<open>\<open>Date.UTC\<close>: a year from 0 to 99 stands for 1900 + year.\<close>

definition Date_UTC :: "int \<Rightarrow> int \<Rightarrow> int \<Rightarrow> int \<Rightarrow> int \<Rightarrow> int \<Rightarrow> int \<Rightarrow> int" where
  "Date_UTC year month date hours minutes seconds ms =
     (let yr = (if 0 \<le> year \<and> year \<le> 99 then 1900 + year else year)
      in MakeDate (MakeDay yr month date) (MakeTime hours minutes seconds ms))"

definition pad :: "nat \<Rightarrow> int \<Rightarrow> string" where
  "pad width n = (let d = decimal (nat n) in replicate (width - length d) (CHR ''0'') @ d)"

text \<open>\<open>toISOString\<close>: \<open>YYYY-MM-DDTHH:mm:ss.sssZ\<close>, with a sign and six digits for a
  year outside 0 to 9999.\<close>

definition toISOString :: "int \<Rightarrow> string" where
  "toISOString t =
     (let y = getUTCFullYear t;
          tod = TimeWithinDay t;
          year = (if 0 \<le> y \<and> y \<le> 9999 then pad 4 y
                  else (if y < 0 then ''-'' else ''+'') @ pad 6 (abs y))
      in year @ ''-'' @ pad 2 (getUTCMonth t + 1) @ ''-'' @ pad 2 (getUTCDate t)
         @ ''T'' @ pad 2 (tod div 3600000) @ '':'' @ pad 2 (tod div 60000 mod 60)
         @ '':'' @ pad 2 (tod div 1000 mod 60) @ ''.'' @ pad 3 (tod mod 1000) @ ''Z'')"

text \<open>\<open>now.toISOString().split('T')[0]\<close>: the text before the first \<open>T\<close>.\<close>

definition today_of :: "int \<Rightarrow> string" where
  "today_of now = takeWhile (\<lambda>c. c \<noteq> CHR ''T'') (toISOString now)"

definition createTournamentDate :: "int \<Rightarrow> int \<Rightarrow> int \<Rightarrow> int \<Rightarrow> int \<Rightarrow> string" where
  "createTournamentDate year month day hour minute =
     toISOString (Date_UTC year (month - 1) day hour minute 0 0)"

subsection \<open>Settings, state and the schedule\<close>

record TournamentSettings =
  hostTeamId :: string
  description :: string
  lastTournamentDayNum :: int
  leadersPerTeam :: int
  dayStartHour :: int
  nightStartHour :: int
  tournamentDurationMinutes :: int
  clockTimeMinutes :: int
  clockIncrementSeconds :: int
  rated :: bool
  variant :: string

record TournamentState =
  lastCreationDate :: string

text \<open>An entry of the array \<open>tournaments\<close> of \<open>main\<close>.\<close>

record tournament =
  t_name :: string
  t_description :: string
  t_startDateISO :: string
  t_dayNum :: int
  t_type :: tournament_type

text \<open>
  The loop \<open>for (let dayOffset = 0; dayOffset < 7; dayOffset++)\<close> of \<open>main\<close>, which
  pushes the Day and then the Night tournament of each day onto \<open>tournaments\<close>.
\<close>

function schedule_loop ::
  "int \<Rightarrow> int \<Rightarrow> TournamentSettings \<Rightarrow> int \<Rightarrow> tournament list \<Rightarrow> tournament list" where
  "schedule_loop now nextDayNum settings dayOffset tournaments =
     (if dayOffset < 7 then
        let tournamentDayNum = num_add nextDayNum dayOffset;
            targetDate = setUTCDate now (getUTCDate now + dayOffset);
            year = getUTCFullYear targetDate;
            month = getUTCMonth targetDate + 1;
            day = getUTCDate targetDate;
            dayT = \<lparr>t_name = buildTournamentName tournamentDayNum Day,
                    t_description = buildDescription tournamentDayNum Day (description settings),
                    t_startDateISO = createTournamentDate year month day (dayStartHour settings) 0,
                    t_dayNum = tournamentDayNum,
                    t_type = Day\<rparr>;
            nightT = \<lparr>t_name = buildTournamentName tournamentDayNum Night,
                      t_description = buildDescription tournamentDayNum Night (description settings),
                      t_startDateISO = createTournamentDate year month day (nightStartHour settings) 0,
                      t_dayNum = tournamentDayNum,
                      t_type = Night\<rparr>
        in schedule_loop now nextDayNum settings (dayOffset + 1) (tournaments @ [dayT, nightT])
      else tournaments)"
  by pat_completeness auto
termination
  by (relation "measure (\<lambda>(now, nextDayNum, settings, dayOffset, tournaments). nat (7 - dayOffset))") auto

subsection \<open>The submission client\<close>

text \<open>The argument of \<open>createTeamBattle\<close>.\<close>

record battle_params =
  p_server :: string
  p_token :: string
  p_name :: string
  p_description :: string
  p_clockTime :: int
  p_clockIncrement :: int
  p_minutes :: int
  p_rated :: bool
  p_variant :: string
  p_startDateISO :: string
  p_hostTeamId :: string
  p_teams :: "string list"
  p_dryRun :: bool

text \<open>The value a submission resolves to: \<open>{ ok, url?, error? }\<close>.\<close>

record submission_result =
  ok :: bool
  url :: "string option"
  error :: "string option"

text \<open>The request handed to \<open>fetch\<close>; the body is the list of form fields in the order
  in which they were added to the \<open>URLSearchParams\<close>.\<close>

record request =
  req_url :: string
  req_verb :: string
  req_headers :: "(string \<times> string) list"
  req_body :: "(string \<times> string) list"

text \<open>A value read out of the parsed response, as far as the script looks at it.\<close>

datatype js_value =
  JUndefined | JNull | JBool bool | JNum int | JStr string | JObject string

fun truthy :: "js_value \<Rightarrow> bool" where
  "truthy JUndefined = False"
| "truthy JNull = False"
| "truthy (JBool b) = b"
| "truthy (JNum n) = (n \<noteq> 0)"
| "truthy (JStr s) = (s \<noteq> [])"
| "truthy (JObject s) = True"

text \<open>The text a template literal gives for a value (for an object, the text it carries).\<close>

fun js_to_string :: "js_value \<Rightarrow> string" where
  "js_to_string JUndefined = ''undefined''"
| "js_to_string JNull = ''null''"
| "js_to_string (JBool b) = (if b then ''true'' else ''false'')"
| "js_to_string (JNum n) = String n"
| "js_to_string (JStr s) = s"
| "js_to_string (JObject s) = s"

text \<open>
  What the script can observe of a response: the status, the result of \<open>res.text()\<close>,
  the value of \<open>data?.id\<close> for the result \<open>data\<close> of \<open>res.json()\<close>, and the
  \<open>Location\<close> header. \<open>Inl e\<close> is a rejection with the thrown value \<open>e\<close>.
\<close>

record response =
  res_status :: int
  res_text :: "string + string"
  res_json_id :: "string + js_value"
  res_location :: "string option"

text \<open>\<open>res.ok\<close> of node-fetch: a status from 200 to 299.\<close>

definition res_ok :: "response \<Rightarrow> bool" where
  "res_ok res = (200 \<le> res_status res \<and> res_status res < 300)"

datatype fetch_outcome = Rejected string | Responded response

text \<open>What a run does to the outside, in order.\<close>

datatype json_data = SettingsData TournamentSettings | StateData TournamentState

datatype event =
  Fetch request
| Delay int
| WriteJSON string json_data

text \<open>The remote side: the outcome of a request, given everything done before it.\<close>

type_synonym network = "event list \<Rightarrow> request \<Rightarrow> fetch_outcome"

definition invitedTeams :: "battle_params \<Rightarrow> string list" where
  "invitedTeams params = filter (\<lambda>t. t \<noteq> [] \<and> t \<noteq> p_hostTeamId params) (p_teams params)"

definition request_body :: "battle_params \<Rightarrow> (string \<times> string) list" where
  "request_body params =
     [(''name'', p_name params),
      (''description'', p_description params),
      (''clockTime'', String (p_clockTime params)),
      (''clockIncrement'', String (p_clockIncrement params)),
      (''minutes'', String (p_minutes params)),
      (''rated'', if p_rated params then ''true'' else ''false''),
      (''variant'', p_variant params),
      (''startDate'', p_startDateISO params)]
     @ [(''teamBattleByTeam'', p_hostTeamId params)]
     @ map (\<lambda>t. (''teams[]'', t)) (invitedTeams params)"

definition api_request :: "battle_params \<Rightarrow> request" where
  "api_request params =
     \<lparr>req_url = p_server params @ ''/api/tournament'',
      req_verb = ''POST'',
      req_headers =
        [(''Authorization'', ''Bearer '' @ p_token params),
         (''Content-Type'', ''application/x-www-form-urlencoded''),
         (''Accept'', ''application/json''),
         (''User-Agent'', ''LMAO-Teamfights-Creator/1.0'')],
      req_body = request_body params\<rparr>"

text \<open>
  The body of the \<open>try\<close> block, given the outcome of \<open>fetch\<close>: \<open>Inl e\<close> when \<open>e\<close> is
  thrown (by \<open>fetch\<close>, \<open>res.text()\<close> or \<open>res.json()\<close>), \<open>Inr r\<close> when \<open>r\<close> is returned.
\<close>

definition try_block :: "battle_params \<Rightarrow> fetch_outcome \<Rightarrow> string + submission_result" where
  "try_block params outcome =
     (case outcome of
        Rejected e \<Rightarrow> Inl e
      | Responded res \<Rightarrow>
          if \<not> res_ok res then
            (case res_text res of
               Inl e \<Rightarrow> Inl e
             | Inr errorText \<Rightarrow>
                 Inr \<lparr>ok = False, url = None,
                      error = Some (String (res_status res) @ '': '' @ errorText)\<rparr>)
          else
            (case res_json_id res of
               Inl e \<Rightarrow> Inl e
             | Inr idv \<Rightarrow>
                 Inr \<lparr>ok = True,
                      url = Some (if truthy idv then p_server params @ ''/tournament/'' @ js_to_string idv
                                  else (case res_location res of
                                          None \<Rightarrow> ''unknown''
                                        | Some l \<Rightarrow> if l = [] then ''unknown'' else l)),
                      error = None\<rparr>))"

text \<open>
  \<open>createTeamBattle\<close>. The first component is what the promise settles to: \<open>Inr r\<close> when
  it resolves to \<open>r\<close>, \<open>Inl e\<close> when it rejects with \<open>e\<close>. The second is the trace after
  the call.
\<close>

definition createTeamBattle ::
  "network \<Rightarrow> battle_params \<Rightarrow> event list \<Rightarrow> (string + submission_result) \<times> event list" where
  "createTeamBattle net params trace =
     (if \<not> validateOAuthToken (p_token params) then
        (Inr \<lparr>ok = False, url = None,
              error = Some ''Invalid or missing OAuth token. Please set a valid OAUTH_TOKEN environment variable.''\<rparr>,
         trace)
      else if p_dryRun params then
        (Inr \<lparr>ok = True,
              url = Some (p_server params @ ''/team/'' @ p_hostTeamId params @ ''/arena/pending''),
              error = None\<rparr>,
         trace)
      else
        (case try_block params (net trace (api_request params)) of
           Inl e \<Rightarrow> Inr \<lparr>ok = False, url = None, error = Some e\<rparr>
         | Inr r \<Rightarrow> Inr r,
         trace @ [Fetch (api_request params)]))"

subsection \<open>The orchestrator\<close>

text \<open>
  What a run reads: the two environment variables (\<open>None\<close> when unset), the result of
  \<open>readJSON\<close> on the settings file (\<open>Inl e\<close> when it throws \<open>e\<close>) and on the state file
  (\<open>None\<close> when it throws; the script drops the thrown value), and the clock.
\<close>

record environment =
  OAUTH_TOKEN :: "string option"
  DRY_RUN :: "string option"
  settings_file :: "string + TournamentSettings"
  state_file :: "TournamentState option"
  clock :: int

text \<open>The inner \<open>try\<close> of \<open>main\<close>: the state read from its file, or the default state.\<close>

definition loadState :: "environment \<Rightarrow> TournamentState" where
  "loadState env = (case state_file env of
                      Some st \<Rightarrow> st
                    | None \<Rightarrow> \<lparr>lastCreationDate = []\<rparr>)"

definition dryRun_of :: "environment \<Rightarrow> bool" where
  "dryRun_of env = (DRY_RUN env = Some ''1'' \<or> DRY_RUN env = Some ''true'')"

definition submission_params ::
  "string \<Rightarrow> TournamentSettings \<Rightarrow> bool \<Rightarrow> tournament \<Rightarrow> battle_params" where
  "submission_params oauthToken settings dryRun t =
     \<lparr>p_server = ''https://lichess.org'',
      p_token = oauthToken,
      p_name = t_name t,
      p_description = t_description t,
      p_clockTime = clockTimeMinutes settings,
      p_clockIncrement = clockIncrementSeconds settings,
      p_minutes = tournamentDurationMinutes settings,
      p_rated = rated settings,
      p_variant = variant settings,
      p_startDateISO = t_startDateISO t,
      p_hostTeamId = hostTeamId settings,
      p_teams = [hostTeamId settings],
      p_dryRun = dryRun\<rparr>"

text \<open>
  The loop \<open>for (let i = 0; i < tournaments.length; i++)\<close> over the tournaments from
  index \<open>i\<close> on, with the two counters. A rejected submission would leave the loop as
  an exception (\<open>Inl\<close>).
\<close>

fun submit_loop ::
  "network \<Rightarrow> string \<Rightarrow> TournamentSettings \<Rightarrow> bool \<Rightarrow> nat \<Rightarrow> tournament list \<Rightarrow>
   nat \<Rightarrow> nat \<Rightarrow> event list \<Rightarrow> (string + nat \<times> nat) \<times> event list" where
  "submit_loop net oauthToken settings dryRun i [] successCount failureCount trace =
     (Inr (successCount, failureCount), trace)"
| "submit_loop net oauthToken settings dryRun i (t # ts) successCount failureCount trace =
     (let trace1 = (if i > 0 then trace @ [Delay 10000] else trace)
      in case createTeamBattle net (submission_params oauthToken settings dryRun t) trace1 of
           (Inl e, trace2) \<Rightarrow> (Inl e, trace2)
         | (Inr result, trace2) \<Rightarrow>
             if ok result
             then submit_loop net oauthToken settings dryRun (i + 1) ts (successCount + 1) failureCount trace2
             else submit_loop net oauthToken settings dryRun (i + 1) ts successCount (failureCount + 1) trace2)"


text \<open>\<open>Math.max(...xs)\<close>; \<open>None\<close> stands for the \<open>-Infinity\<close> of an empty list.\<close>

fun Math_max :: "int list \<Rightarrow> int option" where
  "Math_max [] = None"
| "Math_max (x # xs) = Some (fold max xs x)"

text \<open>How the \<open>try\<close> block of \<open>main\<close> ends when nothing is thrown.\<close>

datatype summary = Skipped | Completed nat nat

text \<open>
  The \<open>try\<close> block of \<open>main\<close>: \<open>Inl e\<close> when \<open>e\<close> is thrown, together with the trace.
  \<open>Completed successCount failureCount\<close> is the end after the summary.
\<close>

definition main_try :: "network \<Rightarrow> environment \<Rightarrow> (string + summary) \<times> event list" where
  "main_try net env =
     (case OAUTH_TOKEN env of
        None \<Rightarrow> (Inl ''Error: OAUTH_TOKEN environment variable is required'', [])
      | Some oauthToken \<Rightarrow>
          if oauthToken = [] then (Inl ''Error: OAUTH_TOKEN environment variable is required'', [])
          else
            (case settings_file env of
               Inl e \<Rightarrow> (Inl e, [])
             | Inr settings \<Rightarrow>
                 let dryRun = dryRun_of env;
                     state = loadState env;
                     now = clock env;
                     today = today_of now
                 in if lastCreationDate state = today then (Inr Skipped, [])
                    else
                      let nextDayNum = num_add (lastTournamentDayNum settings) 1;
                          tournaments = schedule_loop now nextDayNum settings 0 []
                      in case submit_loop net oauthToken settings dryRun 0 tournaments 0 0 [] of
                           (Inl e, trace) \<Rightarrow> (Inl e, trace)
                         | (Inr (successCount, failureCount), trace) \<Rightarrow>
                             (Inr (Completed successCount failureCount),
                              if successCount > 0 then
                                (case Math_max (map t_dayNum tournaments) of
                                   None \<Rightarrow> trace
                                 | Some maxDayNum \<Rightarrow>
                                     trace @
                                     [WriteJSON ''config/tournament-settings.json''
                                        (SettingsData (settings\<lparr>lastTournamentDayNum := maxDayNum\<rparr>)),
                                      WriteJSON ''config/perfect-tournament.state.json''
                                        (StateData (state\<lparr>lastCreationDate := today\<rparr>))])
                              else trace)))"

text \<open>The end of a run: the exit code of the process and the trace of what it did.
  \<open>Aborted e\<close> is the end through a \<open>catch\<close> of \<open>main\<close> with the thrown value \<open>e\<close>.\<close>

datatype ending = Aborted string | Finished summary

record run =
  exit_code :: int
  ending :: ending
  trace :: "event list"

text \<open>
  \<open>main\<close>: the \<open>catch\<close> turns a thrown value into exit code 1, a failure count above
  zero does the same, and the process leaves with 0 otherwise.
\<close>

definition main :: "network \<Rightarrow> environment \<Rightarrow> run" where
  "main net env =
     (case main_try net env of
        (Inl e, tr) \<Rightarrow> \<lparr>exit_code = 1, ending = Aborted e, trace = tr\<rparr>
      | (Inr Skipped, tr) \<Rightarrow> \<lparr>exit_code = 0, ending = Finished Skipped, trace = tr\<rparr>
      | (Inr (Completed successCount failureCount), tr) \<Rightarrow>
          \<lparr>exit_code = (if failureCount > 0 then 1 else 0),
           ending = Finished (Completed successCount failureCount), trace = tr\<rparr>)"

text \<open>The requests and the file writes of a trace.\<close>

fun is_fetch :: "event \<Rightarrow> bool" where
  "is_fetch (Fetch r) = True"
| "is_fetch e = False"

fun is_write :: "event \<Rightarrow> bool" where
  "is_write (WriteJSON path d) = True"
| "is_write e = False"

definition fetches :: "event list \<Rightarrow> event list" where
  "fetches tr = filter is_fetch tr"

definition writes :: "event list \<Rightarrow> event list" where
  "writes tr = filter is_write tr"

text \<open>The \<open>teams[]\<close> fields of a request body.\<close>

definition teams_entries :: "(string \<times> string) list \<Rightarrow> (string \<times> string) list" where
  "teams_entries body = filter (\<lambda>kv. fst kv = ''teams[]'') body"

subsection \<open>Concrete inputs for the examples\<close>

definition example_settings :: TournamentSettings where
  "example_settings =
     \<lparr>hostTeamId = ''lmao-teamfights'', description = ''Battle {TYPE} #{DAY_NUM}'',
      lastTournamentDayNum = 4, leadersPerTeam = 20, dayStartHour = 12, nightStartHour = 22,
      tournamentDurationMinutes = 60, clockTimeMinutes = 3, clockIncrementSeconds = 0,
      rated = True, variant = ''standard''\<rparr>"

text \<open>The first tournament of a schedule that starts with day number 5 on 1970-01-01.\<close>

definition example_tournament :: tournament where
  "example_tournament =
     \<lparr>t_name = buildTournamentName 5 Day,
      t_description = buildDescription 5 Day (description example_settings),
      t_startDateISO = createTournamentDate 1970 1 1 12 0,
      t_dayNum = 5, t_type = Day\<rparr>"

text \<open>A run on 1970-01-01 with a token that passes validation and no state file.\<close>

definition example_env :: environment where
  "example_env =
     \<lparr>OAUTH_TOKEN = Some ''abcdefghij0123456789'', DRY_RUN = None,
      settings_file = Inr example_settings, state_file = None, clock = 0\<rparr>"

text \<open>A server that creates the tournament \<open>t1\<close> at every request, one that answers
  every request with status 429, and a network that is down.\<close>

definition net_created :: network where
  "net_created tr req =
     Responded \<lparr>res_status = 200, res_text = Inr ''{}'', res_json_id = Inr (JStr ''t1''),
                res_location = None\<rparr>"

definition net_limited :: network where
  "net_limited tr req =
     Responded \<lparr>res_status = 429, res_text = Inr ''Too many requests'',
                res_json_id = Inl ''SyntaxError: Unexpected token'', res_location = None\<rparr>"

definition net_down :: network where
  "net_down tr req = Rejected ''FetchError: request failed''"

text \<open>A server that creates the first ten tournaments and answers 429 from then on.\<close>

definition net_partial :: network where
  "net_partial tr req =
     (if length (fetches tr) < 10 then net_created tr req else net_limited tr req)"

section \<open>Properties\<close>

subsection \<open>Auxiliary facts\<close>

declare decimal.simps [simp del]
declare schedule_loop.simps [simp del]
declare bitlen.simps [simp del]

text \<open>Rounding to a double is monotone and leaves the integers up to \<open>2 ^ 53\<close> alone.\<close>

lemma bitlen_upper: "n < 2 ^ bitlen n"
proof (induction n rule: bitlen.induct)
  case (1 n)
  show ?case
  proof (cases "n \<le> 0")
    case True
    then show ?thesis by (simp add: bitlen.simps)
  next
    case False
    with 1 have "n div 2 < 2 ^ bitlen (n div 2)" by simp
    then have "n < 2 * 2 ^ bitlen (n div 2)" by linarith
    with False show ?thesis by (simp add: bitlen.simps [of n])
  qed
qed

lemma bitlen_lower: "n > 0 \<Longrightarrow> 2 ^ (bitlen n - 1) \<le> n"
proof (induction n rule: bitlen.induct)
  case (1 n)
  show ?case
  proof (cases "n div 2 \<le> 0")
    case True
    with 1 have "n = 1" by linarith
    then show ?thesis by (simp add: bitlen.simps [of 1] bitlen.simps [of 0])
  next
    case False
    with 1 have ih: "2 ^ (bitlen (n div 2) - 1) \<le> n div 2" by simp
    from False have "bitlen (n div 2) > 0" by (simp add: bitlen.simps [of "n div 2"])
    then have "(2::int) ^ bitlen (n div 2) = 2 * 2 ^ (bitlen (n div 2) - 1)"
      by (cases "bitlen (n div 2)") simp_all
    with ih have "2 ^ bitlen (n div 2) \<le> n" by linarith
    with 1 show ?thesis by (simp add: bitlen.simps [of n])
  qed
qed

lemma bitlen_mono: "m \<le> n \<Longrightarrow> bitlen m \<le> bitlen n"
proof (induction n arbitrary: m rule: bitlen.induct)
  case (1 n)
  show ?case
  proof (cases "m \<le> 0")
    case True
    then show ?thesis by (simp add: bitlen.simps [of m])
  next
    case False
    with 1 have n: "\<not> n \<le> 0" by simp
    moreover from 1 have "m div 2 \<le> n div 2" by (simp add: zdiv_mono1)
    ultimately have "bitlen (m div 2) \<le> bitlen (n div 2)" using 1 by simp
    with False n show ?thesis by (simp add: bitlen.simps [of n] bitlen.simps [of m])
  qed
qed

lemma rhe_lower: "q > 0 \<Longrightarrow> n div q * q \<le> round_half_even q n"
  by (simp add: round_half_even_def Let_def)

lemma rhe_upper: "q > 0 \<Longrightarrow> round_half_even q n \<le> n div q * q + q"
  by (simp add: round_half_even_def Let_def)

lemma rhe_exact: "n mod q = 0 \<Longrightarrow> q > 0 \<Longrightarrow> round_half_even q n = n"
  by (auto simp: round_half_even_def Let_def)

lemma rhe_mono:
  assumes "m \<le> n" "q > 0"
  shows "round_half_even q m \<le> round_half_even q n"
proof (cases "m div q = n div q")
  case True
  have "m = m div q * q + m mod q" "n = n div q * q + n mod q" by simp_all
  with assms True have "m mod q \<le> n mod q" by (metis add_le_cancel_left)
  with True assms(2) show ?thesis by (auto simp: round_half_even_def Let_def)
next
  case False
  from assms have "m div q \<le> n div q" by (simp add: zdiv_mono1)
  with False have "m div q + 1 \<le> n div q" by simp
  then have "(m div q + 1) * q \<le> n div q * q" using assms(2) by (simp add: mult_right_mono)
  then have "m div q * q + q \<le> n div q * q" by (simp add: algebra_simps)
  with rhe_upper [OF assms(2), of m] rhe_lower [OF assms(2), of n] show ?thesis by linarith
qed

lemma rhe_le_multiple:
  assumes "q dvd k" "n \<le> k" "q > 0"
  shows "round_half_even q n \<le> k"
proof (cases "n mod q = 0")
  case True
  with assms show ?thesis by (simp add: rhe_exact)
next
  case False
  from assms(1) obtain j where k: "k = j * q" by (auto simp: dvd_def mult.commute)
  have "n div q < j"
  proof (rule ccontr)
    assume "\<not> n div q < j"
    then have "j \<le> n div q" by simp
    then have "j * q \<le> n div q * q" using assms(3) by (simp add: mult_right_mono)
    moreover have "n div q * q < n"
    proof -
      have "n = n div q * q + n mod q" by simp
      moreover have "n mod q > 0" using False assms(3) by (simp add: le_neq_trans)
      ultimately show ?thesis by linarith
    qed
    ultimately show False using assms(2) k by simp
  qed
  then have "n div q + 1 \<le> j" by simp
  then have "(n div q + 1) * q \<le> j * q" using assms(3) by (simp add: mult_right_mono)
  then have "n div q * q + q \<le> k" unfolding k by (simp add: algebra_simps)
  with rhe_upper [OF assms(3), of n] show ?thesis by linarith
qed

lemma rhe_ge_multiple:
  assumes "q dvd k" "k \<le> n" "q > 0"
  shows "k \<le> round_half_even q n"
proof -
  from assms(1) obtain j where k: "k = j * q" by (auto simp: dvd_def mult.commute)
  have "j \<le> n div q"
    using assms(2,3) k by (metis zdiv_mono1 nonzero_mult_div_cancel_right less_irrefl)
  then have "k \<le> n div q * q" unfolding k using assms(3) by (simp add: mult_right_mono)
  with rhe_lower [OF assms(3), of n] show ?thesis by linarith
qed


lemma nearest_double_nonneg: "0 \<le> n \<Longrightarrow> 0 \<le> nearest_double n"
proof (cases "n \<le> 2 ^ 53")
  case True
  assume "0 \<le> n"
  with True show ?thesis by (simp add: nearest_double_def)
next
  case False
  have "(2::int) ^ (bitlen n - 53) dvd 0" by simp
  moreover have "(0::int) \<le> n" using False by (smt (verit) zero_le_power)
  ultimately have "0 \<le> round_half_even (2 ^ (bitlen n - 53)) n"
    by (rule rhe_ge_multiple) simp
  with False show ?thesis by (simp add: nearest_double_def)
qed

lemma nearest_double_bounds:
  assumes "2 ^ 53 < n"
  shows "2 ^ (bitlen n - 1) \<le> nearest_double n" and "nearest_double n \<le> 2 ^ bitlen n"
proof -
  let ?q = "(2::int) ^ (bitlen n - 53)"
  have q: "?q > 0" by simp
  from assms have pos: "n > 0" by (smt (verit) zero_less_power)
  have nd: "nearest_double n = round_half_even ?q n" using assms by (simp add: nearest_double_def)
  have "?q dvd 2 ^ (bitlen n - 1)" by (rule le_imp_power_dvd) simp
  from rhe_ge_multiple [OF this bitlen_lower [OF pos] q]
  show "2 ^ (bitlen n - 1) \<le> nearest_double n" by (simp add: nd)
  have "?q dvd 2 ^ bitlen n" by (rule le_imp_power_dvd) simp
  moreover have "n \<le> 2 ^ bitlen n" using bitlen_upper [of n] by simp
  ultimately show "nearest_double n \<le> 2 ^ bitlen n" unfolding nd using q by (rule rhe_le_multiple)
qed

lemma bitlen_large: "2 ^ 53 < n \<Longrightarrow> 54 \<le> bitlen n"
proof -
  assume "2 ^ 53 < n"
  with bitlen_upper [of n] have "(2::int) ^ 53 < 2 ^ bitlen n" by linarith
  moreover have "(1::int) < 2" by simp
  ultimately have "53 < bitlen n" by (rule power_less_imp_less_exp [rotated])
  then show ?thesis by simp
qed

lemma nearest_double_mono:
  assumes "m \<le> n"
  shows "nearest_double m \<le> nearest_double n"
proof (cases "n \<le> 2 ^ 53")
  case True
  with assms show ?thesis by (simp add: nearest_double_def)
next
  case n: False
  then have n': "2 ^ 53 < n" by linarith
  then have bn: "54 \<le> bitlen n" by (rule bitlen_large)
  have low: "2 ^ (bitlen n - 1) \<le> nearest_double n" using n' by (rule nearest_double_bounds)
  show ?thesis
  proof (cases "m \<le> 2 ^ 53")
    case True
    have "53 \<le> bitlen n - 1" using bn by simp
    then have "(2::int) ^ 53 \<le> 2 ^ (bitlen n - 1)" by (rule power_increasing) simp
    with True low show ?thesis by (simp add: nearest_double_def)
  next
    case m: False
    then have m': "2 ^ 53 < m" by linarith
    show ?thesis
    proof (cases "bitlen m = bitlen n")
      case True
      with m n assms show ?thesis by (simp add: nearest_double_def rhe_mono)
    next
      case False
      with bitlen_mono [OF assms] have "bitlen m \<le> bitlen n - 1" by simp
      then have "(2::int) ^ bitlen m \<le> 2 ^ (bitlen n - 1)" by (rule power_increasing) simp
      moreover have "nearest_double m \<le> 2 ^ bitlen m" using m' by (rule nearest_double_bounds)
      ultimately show ?thesis using low by linarith
    qed
  qed
qed

lemma to_double_mono: "x \<le> y \<Longrightarrow> to_double x \<le> to_double y"
proof -
  assume xy: "x \<le> y"
  show ?thesis
  proof (cases "x < 0")
    case x: True
    show ?thesis
    proof (cases "y < 0")
      case True
      with x xy show ?thesis by (simp add: to_double_def nearest_double_mono)
    next
      case False
      then have "0 \<le> nearest_double y" by (simp add: nearest_double_nonneg)
      moreover from x have "0 \<le> nearest_double (- x)" by (simp add: nearest_double_nonneg)
      ultimately show ?thesis using x False by (simp add: to_double_def)
    qed
  next
    case False
    with xy show ?thesis by (simp add: to_double_def nearest_double_mono)
  qed
qed

lemma to_double_safe: "- (2 ^ 53) \<le> x \<Longrightarrow> x \<le> 2 ^ 53 \<Longrightarrow> to_double x = x"
  by (simp add: to_double_def nearest_double_def)

lemma num_add_mono: "b \<le> c \<Longrightarrow> num_add a b \<le> num_add a c"
  by (simp add: num_add_def to_double_mono)

lemma num_add_safe: "- (2 ^ 53) \<le> a + b \<Longrightarrow> a + b \<le> 2 ^ 53 \<Longrightarrow> num_add a b = a + b"
  by (simp add: num_add_def to_double_safe)


lemma str_includes_iff: "str_includes pat s \<longleftrightarrow> sublist pat s"
  by (induction s) (auto simp: sublist_Cons_right)

lemma str_includes_set: "str_includes pat s \<Longrightarrow> set pat \<subseteq> set s"
  unfolding str_includes_iff by (rule set_mono_sublist)

lemma dropWhile_all_iff: "(\<forall>x\<in>set (dropWhile P s). P x) \<longleftrightarrow> (\<forall>x\<in>set s. P x)"
proof
  assume h: "\<forall>x\<in>set (dropWhile P s). P x"
  have "dropWhile P s = []"
  proof (rule ccontr)
    assume ne: "dropWhile P s \<noteq> []"
    then have "\<not> P (hd (dropWhile P s))" by (rule hd_dropWhile)
    moreover from ne have "hd (dropWhile P s) \<in> set (dropWhile P s)" by simp
    ultimately show False using h by blast
  qed
  then show "\<forall>x\<in>set s. P x" by (simp add: dropWhile_eq_Nil_conv)
next
  assume "\<forall>x\<in>set s. P x"
  then show "\<forall>x\<in>set (dropWhile P s). P x" by (blast dest: set_dropWhileD)
qed

lemma trim_empty_iff: "trim s = [] \<longleftrightarrow> list_all isWhiteSpace s"
  by (simp add: trim_def dropWhile_eq_Nil_conv dropWhile_all_iff list_all_iff)

lemma isTokenChar_not_ws: "isTokenChar c \<Longrightarrow> \<not> isWhiteSpace c"
  by (auto simp: isTokenChar_def isAlnum_def isWhiteSpace_def Let_def)

lemma replace_absent: "\<not> str_includes pat s \<Longrightarrow> replace pat rep s = s"
  by (induction s) auto

lemma prefix_into_butlast:
  assumes "prefix pat (x # a @ pat @ b)"
  shows "prefix pat (x # a @ butlast pat)"
proof -
  have len: "length pat \<le> length (x # a @ butlast pat)" by simp
  have "take (length pat) (x # a @ pat @ b) = pat"
    using assms by (metis append_eq_conv_conj prefix_def)
  moreover have "take (length pat) (x # a @ pat @ b) = take (length pat) (x # a @ butlast pat)"
    using len by (cases pat rule: rev_cases) auto
  ultimately have "take (length pat) (x # a @ butlast pat) = pat" by simp
  then show ?thesis by (metis take_is_prefix)
qed

lemma replace_first_occurrence:
  "\<not> str_includes pat (a @ butlast pat) \<Longrightarrow> replace pat rep (a @ pat @ b) = a @ rep @ b"
proof (induction a)
  case Nil
  then have "pat \<noteq> []" by auto
  then obtain p ps where pat: "pat = p # ps" by (cases pat) auto
  show ?case by (simp add: pat)
next
  case (Cons x a)
  from Cons.prems have np: "\<not> prefix pat (x # a @ butlast pat)"
    and ni: "\<not> str_includes pat (a @ butlast pat)" by auto
  have "\<not> prefix pat (x # a @ pat @ b)"
  proof
    assume "prefix pat (x # a @ pat @ b)"
    then have "prefix pat (x # a @ butlast pat)" by (rule prefix_into_butlast)
    with np show False by simp
  qed
  with Cons.IH [OF ni] show ?case by simp
qed

lemma schedule_loop_shape:
  "map (\<lambda>t. (t_dayNum t, t_type t)) (schedule_loop now n s d acc) =
   map (\<lambda>t. (t_dayNum t, t_type t)) acc
   @ concat (map (\<lambda>k. [(num_add n k, Day), (num_add n k, Night)]) [d..6])"
proof (induction now n s d acc rule: schedule_loop.induct)
  case (1 now n s d acc)
  show ?case
  proof (cases "d < 7")
    case True
    then have up: "[d..6] = d # [d + 1..6]" by (simp add: upto_rec1)
    from True show ?thesis
      by (subst schedule_loop.simps) (simp add: Let_def up "1.IH")
  next
    case False
    then show ?thesis by (subst schedule_loop.simps) simp
  qed
qed

lemma upto_0_6: "[0..6::int] = [0, 1, 2, 3, 4, 5, 6]"
  by code_simp

lemma schedule_pairs:
  "map (\<lambda>t. (t_dayNum t, t_type t)) (schedule_loop now n s 0 []) =
   [(num_add n 0, Day), (num_add n 0, Night), (num_add n 1, Day), (num_add n 1, Night),
    (num_add n 2, Day), (num_add n 2, Night), (num_add n 3, Day), (num_add n 3, Night),
    (num_add n 4, Day), (num_add n 4, Night), (num_add n 5, Day), (num_add n 5, Night),
    (num_add n 6, Day), (num_add n 6, Night)]"
  by (simp add: schedule_loop_shape upto_0_6)

lemma schedule_dayNums:
  "map t_dayNum (schedule_loop now n s 0 []) =
   [num_add n 0, num_add n 0, num_add n 1, num_add n 1, num_add n 2, num_add n 2,
    num_add n 3, num_add n 3, num_add n 4, num_add n 4, num_add n 5, num_add n 5,
    num_add n 6, num_add n 6]"
proof -
  have "map t_dayNum (schedule_loop now n s 0 []) =
        map fst (map (\<lambda>t. (t_dayNum t, t_type t)) (schedule_loop now n s 0 []))"
    by simp
  then show ?thesis unfolding schedule_pairs by simp
qed

lemma schedule_types:
  "map t_type (schedule_loop now n s 0 []) =
   [Day, Night, Day, Night, Day, Night, Day, Night, Day, Night, Day, Night, Day, Night]"
proof -
  have "map t_type (schedule_loop now n s 0 []) =
        map snd (map (\<lambda>t. (t_dayNum t, t_type t)) (schedule_loop now n s 0 []))"
    by simp
  then show ?thesis unfolding schedule_pairs by simp
qed

lemma schedule_length: "length (schedule_loop now n s 0 []) = 14"
proof -
  have "length (schedule_loop now n s 0 []) = length (map t_dayNum (schedule_loop now n s 0 []))"
    by simp
  then show ?thesis unfolding schedule_dayNums by simp
qed

lemma schedule_dayNums_safe:
  assumes "- (2 ^ 53) \<le> n" "n + 6 \<le> 2 ^ 53"
  shows "map t_dayNum (schedule_loop now n s 0 []) =
   [n, n, n + 1, n + 1, n + 2, n + 2, n + 3, n + 3, n + 4, n + 4, n + 5, n + 5, n + 6, n + 6]"
proof -
  have "num_add n k = n + k" if "0 \<le> k" "k \<le> 6" for k
    using that assms by (intro num_add_safe) linarith+
  then show ?thesis unfolding schedule_dayNums by simp
qed

lemma schedule_max: "Math_max (map t_dayNum (schedule_loop now n s 0 [])) = Some (num_add n 6)"
proof -
  have le: "num_add n k \<le> num_add n 6" if "k \<le> 6" for k
    using that by (rule num_add_mono)
  have "max (num_add n k) (num_add n 6) = num_add n 6" if "k \<le> 6" for k
    using le [OF that] by (simp add: max_def)
  moreover have "max (num_add n 6) (num_add n k) = num_add n 6" if "k \<le> 6" for k
    using le [OF that] by (simp add: max_def)
  moreover have "max (num_add n j) (num_add n k) = num_add n k" if "j \<le> k" for j k
    using num_add_mono [OF that, of n] by (simp add: max_def)
  moreover have "max (num_add n k) (num_add n j) = num_add n k" if "j \<le> k" for j k
    using num_add_mono [OF that, of n] by (simp add: max_def)
  ultimately show ?thesis unfolding schedule_dayNums by simp
qed

lemma num_add_small: "num_add (num_add 4 1) 6 = 11" "num_add 4 1 = 5" "num_add 5 6 = 11"
  by (simp_all add: num_add_def to_double_def nearest_double_def)

lemma createTeamBattle_resolves: "\<exists>r. fst (createTeamBattle net p tr) = Inr r"
  by (simp add: createTeamBattle_def split: sum.split)

lemma createTeamBattle_trace:
  "snd (createTeamBattle net p tr) = tr \<or> snd (createTeamBattle net p tr) = tr @ [Fetch (api_request p)]"
  by (simp add: createTeamBattle_def)

lemma createTeamBattle_cases:
  obtains r where "createTeamBattle net p tr = (Inr r, tr)"
  | r where "createTeamBattle net p tr = (Inr r, tr @ [Fetch (api_request p)])"
  using createTeamBattle_resolves [of net p tr] createTeamBattle_trace [of net p tr]
  by (cases "createTeamBattle net p tr") auto

text \<open>The events a submission loop can add to a trace.\<close>

lemma submit_loop_total:
  "\<exists>sc' fc' tr'. submit_loop net tok s dry i ts sc fc tr = (Inr (sc', fc'), tr @ tr')
     \<and> sc' + fc' = sc + fc + length ts
     \<and> list_all (\<lambda>e. e = Delay 10000 \<or> (\<exists>t. e = Fetch (api_request (submission_params tok s dry t)))) tr'"
proof (induction ts arbitrary: i sc fc tr)
  case Nil
  show ?case by simp
next
  case (Cons t ts)
  let ?P = "\<lambda>e. e = Delay 10000 \<or> (\<exists>t. e = Fetch (api_request (submission_params tok s dry t)))"
  define tr1 where "tr1 = (if i > 0 then tr @ [Delay 10000] else tr)"
  obtain d where d: "tr1 = tr @ d" "list_all ?P d"
    by (cases "i > 0") (auto simp: tr1_def)
  obtain r f where c: "createTeamBattle net (submission_params tok s dry t) tr1 = (Inr r, tr1 @ f)"
    and f: "list_all ?P f"
  proof (cases net "submission_params tok s dry t" tr1 rule: createTeamBattle_cases)
    case (1 r)
    then show ?thesis using that [of r "[]"] by simp
  next
    case (2 r)
    then show ?thesis using that [of r "[Fetch (api_request (submission_params tok s dry t))]"] by auto
  qed
  show ?case
  proof (cases "ok r")
    case True
    from Cons.IH [of "i + 1" "sc + 1" fc "tr1 @ f"]
    obtain sc' fc' tr' where
      "submit_loop net tok s dry (i + 1) ts (sc + 1) fc (tr1 @ f) = (Inr (sc', fc'), (tr1 @ f) @ tr')"
      "sc' + fc' = sc + 1 + fc + length ts" "list_all ?P tr'" by blast
    with True c d f show ?thesis
      by (auto simp: tr1_def [symmetric] intro!: exI [of _ "d @ f @ tr'"])
  next
    case False
    from Cons.IH [of "i + 1" sc "fc + 1" "tr1 @ f"]
    obtain sc' fc' tr' where
      "submit_loop net tok s dry (i + 1) ts sc (fc + 1) (tr1 @ f) = (Inr (sc', fc'), (tr1 @ f) @ tr')"
      "sc' + fc' = sc + (fc + 1) + length ts" "list_all ?P tr'" by blast
    with False c d f show ?thesis
      by (auto simp: tr1_def [symmetric] intro!: exI [of _ "d @ f @ tr'"])
  qed
qed

lemma submission_params_sel:
  "p_token (submission_params tok s dry t) = tok"
  "p_dryRun (submission_params tok s dry t) = dry"
  "p_server (submission_params tok s dry t) = ''https://lichess.org''"
  "p_hostTeamId (submission_params tok s dry t) = hostTeamId s"
  "p_teams (submission_params tok s dry t) = [hostTeamId s]"
  by (simp_all add: submission_params_def)

lemma createTeamBattle_invalid:
  "\<not> validateOAuthToken (p_token p) \<Longrightarrow>
   createTeamBattle net p tr =
     (Inr \<lparr>ok = False, url = None,
           error = Some ''Invalid or missing OAuth token. Please set a valid OAUTH_TOKEN environment variable.''\<rparr>,
      tr)"
  by (simp add: createTeamBattle_def)

lemma createTeamBattle_dry:
  "validateOAuthToken (p_token p) \<Longrightarrow> p_dryRun p \<Longrightarrow>
   createTeamBattle net p tr =
     (Inr \<lparr>ok = True, url = Some (p_server p @ ''/team/'' @ p_hostTeamId p @ ''/arena/pending''),
           error = None\<rparr>,
      tr)"
  by (simp add: createTeamBattle_def)

lemma submit_loop_dry:
  "validateOAuthToken tok \<Longrightarrow>
   submit_loop net tok s True i ts sc fc tr =
     (Inr (sc + length ts, fc),
      tr @ replicate (if i > 0 then length ts else length ts - 1) (Delay 10000))"
proof (induction ts arbitrary: i sc tr)
  case Nil
  show ?case by simp
next
  case (Cons t ts)
  have c: "createTeamBattle net (submission_params tok s True t) tr' =
           (Inr \<lparr>ok = True, url = Some (''https://lichess.org'' @ ''/team/'' @ hostTeamId s @ ''/arena/pending''),
                 error = None\<rparr>, tr')" for tr'
    using createTeamBattle_dry [of "submission_params tok s True t" net tr'] Cons.prems
    by (simp add: submission_params_sel)
  show ?case
    by (cases "i > 0")
       (simp_all add: c Cons.IH [OF Cons.prems] replicate_app_Cons_same del: append.simps)
qed

lemma submit_loop_invalid:
  "\<not> validateOAuthToken tok \<Longrightarrow>
   submit_loop net tok s dry i ts sc fc tr =
     (Inr (sc, fc + length ts),
      tr @ replicate (if i > 0 then length ts else length ts - 1) (Delay 10000))"
proof (induction ts arbitrary: i fc tr)
  case Nil
  show ?case by simp
next
  case (Cons t ts)
  have c: "createTeamBattle net (submission_params tok s dry t) tr' =
           (Inr \<lparr>ok = False, url = None,
                 error = Some ''Invalid or missing OAuth token. Please set a valid OAUTH_TOKEN environment variable.''\<rparr>,
            tr')" for tr'
    using createTeamBattle_invalid [of "submission_params tok s dry t" net tr'] Cons.prems
    by (simp add: submission_params_sel)
  show ?case
    by (cases "i > 0")
       (simp_all add: c Cons.IH [OF Cons.prems] replicate_app_Cons_same)
qed



lemma main_abort_token:
  "OAUTH_TOKEN env = None \<or> OAUTH_TOKEN env = Some [] \<Longrightarrow>
   main net env = \<lparr>exit_code = 1,
                   ending = Aborted ''Error: OAUTH_TOKEN environment variable is required'',
                   trace = []\<rparr>"
  by (auto simp: main_def main_try_def)

lemma main_abort_settings:
  "OAUTH_TOKEN env = Some tok \<Longrightarrow> tok \<noteq> [] \<Longrightarrow> settings_file env = Inl e \<Longrightarrow>
   main net env = \<lparr>exit_code = 1, ending = Aborted e, trace = []\<rparr>"
  by (simp add: main_def main_try_def)

lemma main_skip:
  "OAUTH_TOKEN env = Some tok \<Longrightarrow> tok \<noteq> [] \<Longrightarrow> settings_file env = Inr s \<Longrightarrow>
   lastCreationDate (loadState env) = today_of (clock env) \<Longrightarrow>
   main net env = \<lparr>exit_code = 0, ending = Finished Skipped, trace = []\<rparr>"
  by (simp add: main_def main_try_def)

lemma main_submit:
  assumes "OAUTH_TOKEN env = Some tok" "tok \<noteq> []" "settings_file env = Inr s"
    and "lastCreationDate (loadState env) \<noteq> today_of (clock env)"
    and "submit_loop net tok s (dryRun_of env) 0
           (schedule_loop (clock env) (num_add (lastTournamentDayNum s) 1) s 0 []) 0 0 [] = (Inr (sc, fc), tr)"
  shows "main net env =
     \<lparr>exit_code = (if fc > 0 then 1 else 0),
      ending = Finished (Completed sc fc),
      trace = tr @ (if sc > 0 then
                [WriteJSON ''config/tournament-settings.json''
                   (SettingsData (s\<lparr>lastTournamentDayNum := num_add (num_add (lastTournamentDayNum s) 1) 6\<rparr>)),
                 WriteJSON ''config/perfect-tournament.state.json''
                   (StateData ((loadState env)\<lparr>lastCreationDate := today_of (clock env)\<rparr>))]
              else [])\<rparr>"
  using assms by (simp add: main_def main_try_def Let_def schedule_max)

lemma main_cases:
  obtains (Abort) e where "main net env = \<lparr>exit_code = 1, ending = Aborted e, trace = []\<rparr>"
      and "OAUTH_TOKEN env = None \<or> OAUTH_TOKEN env = Some [] \<or> (\<exists>e. settings_file env = Inl e)"
  | (Skip) tok s where "OAUTH_TOKEN env = Some tok" "tok \<noteq> []" "settings_file env = Inr s"
      and "lastCreationDate (loadState env) = today_of (clock env)"
      and "main net env = \<lparr>exit_code = 0, ending = Finished Skipped, trace = []\<rparr>"
  | (Run) tok s sc fc tr where "OAUTH_TOKEN env = Some tok" "tok \<noteq> []" "settings_file env = Inr s"
      and "lastCreationDate (loadState env) \<noteq> today_of (clock env)"
      and "sc + fc = 14"
      and "list_all (\<lambda>e. e = Delay 10000 \<or>
              (\<exists>t. e = Fetch (api_request (submission_params tok s (dryRun_of env) t)))) tr"
      and "main net env =
             \<lparr>exit_code = (if fc > 0 then 1 else 0),
              ending = Finished (Completed sc fc),
              trace = tr @ (if sc > 0 then
                [WriteJSON ''config/tournament-settings.json''
                   (SettingsData (s\<lparr>lastTournamentDayNum := num_add (num_add (lastTournamentDayNum s) 1) 6\<rparr>)),
                 WriteJSON ''config/perfect-tournament.state.json''
                   (StateData ((loadState env)\<lparr>lastCreationDate := today_of (clock env)\<rparr>))]
              else [])\<rparr>"
proof (cases "OAUTH_TOKEN env = None \<or> OAUTH_TOKEN env = Some []")
  case True
  then show ?thesis using Abort main_abort_token [of env net] by blast
next
  case False
  then obtain tok where tok: "OAUTH_TOKEN env = Some tok" "tok \<noteq> []" by auto
  show ?thesis
  proof (cases "settings_file env")
    case (Inl e)
    then show ?thesis using Abort main_abort_settings [OF tok, of e net] by blast
  next
    case (Inr s)
    show ?thesis
    proof (cases "lastCreationDate (loadState env) = today_of (clock env)")
      case True
      then show ?thesis using Skip tok Inr main_skip [OF tok Inr, of net] by blast
    next
      case False
      let ?ts = "schedule_loop (clock env) (num_add (lastTournamentDayNum s) 1) s 0 []"
      from submit_loop_total [of net tok s "dryRun_of env" 0 ?ts 0 0 "[]"]
      obtain sc fc tr where l: "submit_loop net tok s (dryRun_of env) 0 ?ts 0 0 [] = (Inr (sc, fc), tr)"
        and n: "sc + fc = length ?ts"
        and p: "list_all (\<lambda>e. e = Delay 10000 \<or>
              (\<exists>t. e = Fetch (api_request (submission_params tok s (dryRun_of env) t)))) tr"
        by auto
      from n have "sc + fc = 14" by (simp add: schedule_length)
      then show ?thesis using Run [OF tok Inr False _ p main_submit [OF tok Inr False l]] by blast
    qed
  qed
qed

lemma today_of_epoch: "today_of 0 = ''1970-01-01''"
  by code_simp

lemma example_token_valid: "validateOAuthToken ''abcdefghij0123456789''"
  by (simp add: validateOAuthToken_def trim_def isWhiteSpace_def tokenRegex_test_def
        isTokenChar_def isAlnum_def)

lemma short_token_invalid: "\<not> validateOAuthToken ''abc''"
  by (simp add: validateOAuthToken_def)

lemma valid_token_nonempty: "validateOAuthToken tok \<Longrightarrow> tok \<noteq> []"
  by (auto simp: validateOAuthToken_def)

lemma writes_of_submissions:
  "list_all (\<lambda>e. e = Delay 10000 \<or> (\<exists>t. e = Fetch (f t))) tr \<Longrightarrow> writes tr = []"
  by (induction tr) (auto simp: writes_def)

lemma writes_append: "writes (a @ b) = writes a @ writes b"
  by (simp add: writes_def)

lemma teams_entries_submission:
  "teams_entries (request_body (submission_params tok s dry t)) = []"
  by (simp add: teams_entries_def request_body_def invitedTeams_def submission_params_def)

lemma main_dry_valid:
  assumes "validateOAuthToken tok" "OAUTH_TOKEN env = Some tok" "dryRun_of env"
    and "settings_file env = Inr s"
    and "lastCreationDate (loadState env) \<noteq> today_of (clock env)"
  shows "main net env =
     \<lparr>exit_code = 0, ending = Finished (Completed 14 0),
      trace = replicate 13 (Delay 10000) @
        [WriteJSON ''config/tournament-settings.json''
           (SettingsData (s\<lparr>lastTournamentDayNum := num_add (num_add (lastTournamentDayNum s) 1) 6\<rparr>)),
         WriteJSON ''config/perfect-tournament.state.json''
           (StateData ((loadState env)\<lparr>lastCreationDate := today_of (clock env)\<rparr>))]\<rparr>"
proof -
  let ?ts = "schedule_loop (clock env) (num_add (lastTournamentDayNum s) 1) s 0 []"
  have "submit_loop net tok s (dryRun_of env) 0 ?ts 0 0 [] =
        (Inr (14, 0), replicate 13 (Delay 10000))"
    using assms(1,3) by (simp add: submit_loop_dry schedule_length)
  from main_submit [OF assms(2) valid_token_nonempty [OF assms(1)] assms(4,5) this]
  show ?thesis by simp
qed

lemma main_invalid:
  assumes "\<not> validateOAuthToken tok" "OAUTH_TOKEN env = Some tok" "tok \<noteq> []"
    and "settings_file env = Inr s"
    and "lastCreationDate (loadState env) \<noteq> today_of (clock env)"
  shows "main net env =
     \<lparr>exit_code = 1, ending = Finished (Completed 0 14), trace = replicate 13 (Delay 10000)\<rparr>"
proof -
  let ?ts = "schedule_loop (clock env) (num_add (lastTournamentDayNum s) 1) s 0 []"
  have "submit_loop net tok s (dryRun_of env) 0 ?ts 0 0 [] =
        (Inr (0, 14), replicate 13 (Delay 10000))"
    using assms(1) by (simp add: submit_loop_invalid schedule_length)
  from main_submit [OF assms(2,3,4,5) this]
  show ?thesis by simp
qed

lemma createTeamBattle_created:
  "validateOAuthToken (p_token p) \<Longrightarrow> \<not> p_dryRun p \<Longrightarrow>
   createTeamBattle net_created p tr =
     (Inr \<lparr>ok = True, url = Some (p_server p @ ''/tournament/t1''), error = None\<rparr>,
      tr @ [Fetch (api_request p)])"
  by (simp add: createTeamBattle_def try_block_def net_created_def res_ok_def)

lemma submit_loop_created:
  "validateOAuthToken tok \<Longrightarrow>
   fst (submit_loop net_created tok s False i ts sc fc tr) = Inr (sc + length ts, fc)"
proof (induction ts arbitrary: i sc tr)
  case Nil
  show ?case by simp
next
  case (Cons t ts)
  have c: "createTeamBattle net_created (submission_params tok s False t) tr' =
           (Inr \<lparr>ok = True, url = Some (''https://lichess.org'' @ ''/tournament/t1''), error = None\<rparr>,
            tr' @ [Fetch (api_request (submission_params tok s False t))])" for tr'
    using createTeamBattle_created [of "submission_params tok s False t" tr'] Cons.prems
    by (simp add: submission_params_sel)
  show ?case
    by (simp add: c Cons.IH [OF Cons.prems] Let_def del: append.simps)
qed

lemma main_created:
  assumes "validateOAuthToken tok" "OAUTH_TOKEN env = Some tok" "\<not> dryRun_of env"
    and "settings_file env = Inr s"
    and "lastCreationDate (loadState env) \<noteq> today_of (clock env)"
  shows "ending (main net_created env) = Finished (Completed 14 0)"
proof -
  let ?ts = "schedule_loop (clock env) (num_add (lastTournamentDayNum s) 1) s 0 []"
  obtain tr where "submit_loop net_created tok s (dryRun_of env) 0 ?ts 0 0 [] = (Inr (14, 0), tr)"
    using submit_loop_created [OF assms(1), of s 0 ?ts 0 0 "[]"] assms(3)
    by (cases "submit_loop net_created tok s False 0 ?ts 0 0 []") (simp add: schedule_length)
  from main_submit [OF assms(2) valid_token_nonempty [OF assms(1)] assms(4,5) this]
  show ?thesis by simp
qed

lemma main_completed_writes:
  assumes "settings_file env = Inr s"
    and "ending (main net env) = Finished (Completed sc fc)"
  shows "writes (trace (main net env)) =
        (if sc > 0 then
           [WriteJSON ''config/tournament-settings.json''
              (SettingsData (s\<lparr>lastTournamentDayNum := num_add (num_add (lastTournamentDayNum s) 1) 6\<rparr>)),
            WriteJSON ''config/perfect-tournament.state.json''
              (StateData ((loadState env)\<lparr>lastCreationDate := today_of (clock env)\<rparr>))]
         else [])"
proof (cases net env rule: main_cases)
  case (Abort e)
  with assms show ?thesis by simp
next
  case (Skip tok s')
  with assms show ?thesis by simp
next
  case (Run tok s' sc' fc' tr)
  from Run(6) have "writes tr = []" by (rule writes_of_submissions)
  with Run assms show ?thesis
    by (auto simp: writes_append writes_def)
qed


lemma partial_run_ending:
  "ending (main net_partial example_env) = Finished (Completed 10 4)"
  by code_simp

lemma num_add_beyond:
  "num_add (num_add 18014398509481984 1) 6 = 18014398509481992"
  "map (num_add (num_add 18014398509481984 1)) [0, 1, 2, 3, 4, 5, 6] =
     [18014398509481984, 18014398509481984, 18014398509481984, 18014398509481988,
      18014398509481988, 18014398509481988, 18014398509481992]"
  "map (num_add 9007199254740992) [0, 1, 2, 3, 4, 5, 6] =
     [9007199254740992, 9007199254740992, 9007199254740994, 9007199254740996,
      9007199254740996, 9007199254740996, 9007199254740998]"
  by code_simp+

subsection \<open>The guard of the orchestrator\<close>

text \<open>
  Claim C1, as amended. When the state file holds the date of today, a run makes no
  request and writes no file: its trace is empty. When, in addition, the credential is
  set and not empty and the settings file is readable, the run ends at the guard with
  exit code 0.
\<close>

theorem guard_short_circuit:
  assumes "state_file env = Some st" and "lastCreationDate st = today_of (clock env)"
  shows "trace (main net env) = []
    \<and> fetches (trace (main net env)) = [] \<and> writes (trace (main net env)) = []
    \<and> (OAUTH_TOKEN env = Some tok \<and> tok \<noteq> [] \<and> settings_file env = Inr settings \<longrightarrow>
         exit_code (main net env) = 0 \<and> ending (main net env) = Finished Skipped)"
proof -
  from assms have g: "lastCreationDate (loadState env) = today_of (clock env)"
    by (simp add: loadState_def)
  show ?thesis
  proof (cases net env rule: main_cases)
    case (Abort e)
    then show ?thesis by (auto simp: fetches_def writes_def)
  next
    case (Skip tok s)
    then show ?thesis by (simp add: fetches_def writes_def)
  next
    case (Run tok s sc fc tr)
    with g show ?thesis by simp
  qed
qed


text \<open>The theorem at a run on 1970-01-01 whose state file holds that date.\<close>

theorem guard_short_circuit_witness:
  "trace (main net_created (example_env\<lparr>state_file := Some \<lparr>lastCreationDate = ''1970-01-01''\<rparr>\<rparr>)) = []
   \<and> exit_code (main net_created (example_env\<lparr>state_file := Some \<lparr>lastCreationDate = ''1970-01-01''\<rparr>\<rparr>)) = 0
   \<and> ending (main net_created (example_env\<lparr>state_file := Some \<lparr>lastCreationDate = ''1970-01-01''\<rparr>\<rparr>))
       = Finished Skipped"
  using guard_short_circuit [of "example_env\<lparr>state_file := Some \<lparr>lastCreationDate = ''1970-01-01''\<rparr>\<rparr>"
      "\<lparr>lastCreationDate = ''1970-01-01''\<rparr>" net_created "''abcdefghij0123456789''" example_settings]
  by (simp add: example_env_def today_of_epoch)


text \<open>
  Without the amendment the claim fails: with \<open>OAUTH_TOKEN\<close> unset, a run whose state
  file holds the date of today leaves through the \<open>catch\<close> of \<open>main\<close> with exit code 1.
\<close>

theorem guard_exit_code_counterexample:
  "state_file (example_env\<lparr>OAUTH_TOKEN := None, state_file := Some \<lparr>lastCreationDate = ''1970-01-01''\<rparr>\<rparr>)
     = Some \<lparr>lastCreationDate = today_of (clock (example_env\<lparr>OAUTH_TOKEN := None,
                 state_file := Some \<lparr>lastCreationDate = ''1970-01-01''\<rparr>\<rparr>))\<rparr>
   \<and> exit_code (main net_created (example_env\<lparr>OAUTH_TOKEN := None,
                 state_file := Some \<lparr>lastCreationDate = ''1970-01-01''\<rparr>\<rparr>)) = 1"
  by (simp add: main_abort_token example_env_def today_of_epoch)


subsection \<open>Finalizing\<close>

text \<open>
  Claim C2, as amended. A run that reaches the end of the submission loop with
  \<open>successCount > 0\<close> writes the settings with \<open>lastTournamentDayNum\<close> set to the greatest
  day number of the schedule, whatever failed, and then the state with
  \<open>lastCreationDate\<close> set to today; these are its only writes. With \<open>successCount = 0\<close>
  it writes nothing. The greatest day number is the number the script computes as
  \<open>(lastTournamentDayNum + 1) + 6\<close>; it is \<open>startDayNum + 6\<close>, with
  \<open>startDayNum = lastTournamentDayNum + 1\<close>, when \<open>lastTournamentDayNum\<close> and
  \<open>lastTournamentDayNum + 7\<close> are at most \<open>2 ^ 53\<close> in magnitude, where the addition of
  numbers is exact.
\<close>

theorem finalizing_persists:
  assumes "settings_file env = Inr settings"
    and "ending (main net env) = Finished (Completed successCount failureCount)"
  shows "Math_max (map t_dayNum
           (schedule_loop (clock env) (num_add (lastTournamentDayNum settings) 1) settings 0 []))
         = Some (num_add (num_add (lastTournamentDayNum settings) 1) 6)
    \<and> writes (trace (main net env)) =
        (if successCount > 0 then
           [WriteJSON ''config/tournament-settings.json''
              (SettingsData (settings\<lparr>lastTournamentDayNum :=
                 num_add (num_add (lastTournamentDayNum settings) 1) 6\<rparr>)),
            WriteJSON ''config/perfect-tournament.state.json''
              (StateData ((loadState env)\<lparr>lastCreationDate := today_of (clock env)\<rparr>))]
         else [])
    \<and> (- (2 ^ 53) \<le> lastTournamentDayNum settings \<and> lastTournamentDayNum settings + 7 \<le> 2 ^ 53 \<longrightarrow>
         num_add (lastTournamentDayNum settings) 1 = lastTournamentDayNum settings + 1
         \<and> num_add (num_add (lastTournamentDayNum settings) 1) 6
             = lastTournamentDayNum settings + 1 + 6)"
proof (intro conjI impI)
  show "Math_max (map t_dayNum
           (schedule_loop (clock env) (num_add (lastTournamentDayNum settings) 1) settings 0 []))
         = Some (num_add (num_add (lastTournamentDayNum settings) 1) 6)"
    by (rule schedule_max)
  show "writes (trace (main net env)) =
        (if successCount > 0 then
           [WriteJSON ''config/tournament-settings.json''
              (SettingsData (settings\<lparr>lastTournamentDayNum :=
                 num_add (num_add (lastTournamentDayNum settings) 1) 6\<rparr>)),
            WriteJSON ''config/perfect-tournament.state.json''
              (StateData ((loadState env)\<lparr>lastCreationDate := today_of (clock env)\<rparr>))]
         else [])"
    using assms by (rule main_completed_writes)
next
  assume r: "- (2 ^ 53) \<le> lastTournamentDayNum settings \<and> lastTournamentDayNum settings + 7 \<le> 2 ^ 53"
  then show n: "num_add (lastTournamentDayNum settings) 1 = lastTournamentDayNum settings + 1"
    by (intro num_add_safe) linarith+
  from r show "num_add (num_add (lastTournamentDayNum settings) 1) 6
             = lastTournamentDayNum settings + 1 + 6"
    unfolding n by (intro num_add_safe) linarith+
qed

text \<open>The theorem at a run whose first ten submissions succeed and whose last four fail,
  and at a run with a token that fails validation, where none succeeds.\<close>

theorem finalizing_persists_witness:
  "ending (main net_partial example_env) = Finished (Completed 10 4)
   \<and> writes (trace (main net_partial example_env)) =
       [WriteJSON ''config/tournament-settings.json''
          (SettingsData (example_settings\<lparr>lastTournamentDayNum := 11\<rparr>)),
        WriteJSON ''config/perfect-tournament.state.json''
          (StateData \<lparr>lastCreationDate = ''1970-01-01''\<rparr>)]
   \<and> ending (main net_down (example_env\<lparr>OAUTH_TOKEN := Some ''abc''\<rparr>)) = Finished (Completed 0 14)
   \<and> writes (trace (main net_down (example_env\<lparr>OAUTH_TOKEN := Some ''abc''\<rparr>))) = []"
proof -
  let ?bad = "example_env\<lparr>OAUTH_TOKEN := Some ''abc''\<rparr>"
  have e2: "ending (main net_down ?bad) = Finished (Completed 0 14)"
    using main_invalid [OF short_token_invalid, of ?bad example_settings net_down]
    by (simp add: example_env_def loadState_def today_of_epoch)
  have l: "lastTournamentDayNum example_settings = 4"
    by (simp add: example_settings_def)
  show ?thesis
    using finalizing_persists [of example_env example_settings net_partial 10 4, OF _ partial_run_ending]
      finalizing_persists [of ?bad example_settings net_down 0 14, OF _ e2] e2 partial_run_ending
    by (simp add: example_env_def loadState_def today_of_epoch l num_add_small)
qed

text \<open>
  Without the amendment the claim fails: with \<open>lastTournamentDayNum = 2 ^ 54\<close>, where
  doubles are four apart, the script computes the first day number \<open>2 ^ 54\<close>, the day
  numbers \<open>2 ^ 54\<close>, \<open>2 ^ 54 + 4\<close> and \<open>2 ^ 54 + 8\<close>, and a run whose submissions all
  succeed writes \<open>2 ^ 54 + 8\<close>, which is neither \<open>2 ^ 54 + 1 + 6\<close> nor \<open>2 ^ 54 + 6\<close>.
\<close>

theorem finalizing_persists_counterexample:
  "ending (main net_created
      (example_env\<lparr>settings_file :=
         Inr (example_settings\<lparr>lastTournamentDayNum := 18014398509481984\<rparr>)\<rparr>))
     = Finished (Completed 14 0)
   \<and> writes (trace (main net_created
      (example_env\<lparr>settings_file :=
         Inr (example_settings\<lparr>lastTournamentDayNum := 18014398509481984\<rparr>)\<rparr>))) =
       [WriteJSON ''config/tournament-settings.json''
          (SettingsData (example_settings\<lparr>lastTournamentDayNum := 18014398509481992\<rparr>)),
        WriteJSON ''config/perfect-tournament.state.json''
          (StateData \<lparr>lastCreationDate = ''1970-01-01''\<rparr>)]
   \<and> map t_dayNum (schedule_loop 0 (num_add 18014398509481984 1)
        (example_settings\<lparr>lastTournamentDayNum := 18014398509481984\<rparr>) 0 []) =
       [18014398509481984, 18014398509481984, 18014398509481984, 18014398509481984,
        18014398509481984, 18014398509481984, 18014398509481988, 18014398509481988,
        18014398509481988, 18014398509481988, 18014398509481988, 18014398509481988,
        18014398509481992, 18014398509481992]
   \<and> (18014398509481992 :: int) \<noteq> 18014398509481984 + 1 + 6
   \<and> (18014398509481992 :: int) \<noteq> 18014398509481984 + 6"
proof -
  let ?s = "example_settings\<lparr>lastTournamentDayNum := 18014398509481984\<rparr>"
  let ?e = "example_env\<lparr>settings_file := Inr ?s\<rparr>"
  have e: "ending (main net_created ?e) = Finished (Completed 14 0)"
    using main_created [OF example_token_valid, of ?e ?s]
    by (simp add: example_env_def dryRun_of_def loadState_def today_of_epoch)
  have w: "writes (trace (main net_created ?e)) =
       [WriteJSON ''config/tournament-settings.json''
          (SettingsData (example_settings\<lparr>lastTournamentDayNum := 18014398509481992\<rparr>)),
        WriteJSON ''config/perfect-tournament.state.json''
          (StateData \<lparr>lastCreationDate = ''1970-01-01''\<rparr>)]"
    using main_completed_writes [of ?e ?s net_created 14 0, OF _ e]
    by (simp add: example_env_def loadState_def today_of_epoch num_add_beyond(1))
  have d: "map t_dayNum (schedule_loop 0 (num_add 18014398509481984 1) ?s 0 []) =
       [18014398509481984, 18014398509481984, 18014398509481984, 18014398509481984,
        18014398509481984, 18014398509481984, 18014398509481988, 18014398509481988,
        18014398509481988, 18014398509481988, 18014398509481988, 18014398509481988,
        18014398509481992, 18014398509481992]"
    using num_add_beyond(2) unfolding schedule_dayNums by simp
  from e w d show ?thesis by simp
qed

subsection \<open>The token validator\<close>

text \<open>
  Claim C7. \<open>validateOAuthToken\<close> is a function of the token alone. It answers false
  for every token that is empty or consists of white space only, that contains one of the
  markers \<open>***\<close>, \<open>YOUR_TOKEN\<close>, \<open>PLACEHOLDER\<close>, that has a character outside
  letters, digits, hyphen and underscore, or whose length is at most 10. It answers true
  for a token of 20 letters and digits, whichever it is, as long as the marker
  \<open>PLACEHOLDER\<close> (itself made of letters) does not occur in it.
\<close>

theorem validateOAuthToken_rejects_and_accepts:
  "(token = [] \<or> list_all isWhiteSpace token
      \<or> str_includes ''***'' token \<or> str_includes ''YOUR_TOKEN'' token
      \<or> str_includes ''PLACEHOLDER'' token
      \<or> (\<exists>c \<in> set token. \<not> isTokenChar c)
      \<or> length token \<le> 10
    \<longrightarrow> \<not> validateOAuthToken token)
   \<and> (length t = 20 \<and> list_all isAlnum t \<and> \<not> str_includes ''PLACEHOLDER'' t
        \<longrightarrow> validateOAuthToken t)"
proof (intro conjI impI)
  assume "token = [] \<or> list_all isWhiteSpace token
      \<or> str_includes ''***'' token \<or> str_includes ''YOUR_TOKEN'' token
      \<or> str_includes ''PLACEHOLDER'' token
      \<or> (\<exists>c \<in> set token. \<not> isTokenChar c)
      \<or> length token \<le> 10"
  then show "\<not> validateOAuthToken token"
    by (auto simp: validateOAuthToken_def trim_empty_iff tokenRegex_test_def list_all_iff)
next
  assume h: "length t = 20 \<and> list_all isAlnum t \<and> \<not> str_includes ''PLACEHOLDER'' t"
  then have ne: "t \<noteq> []" by auto
  from h have al: "\<forall>c \<in> set t. isAlnum c" by (simp add: list_all_iff)
  then have tc: "list_all isTokenChar t" by (simp add: list_all_iff isTokenChar_def)
  have "\<not> list_all isWhiteSpace t"
  proof
    assume "list_all isWhiteSpace t"
    with ne have "isWhiteSpace (hd t)" by (cases t) auto
    moreover from ne tc have "isTokenChar (hd t)" by (cases t) auto
    ultimately show False using isTokenChar_not_ws by blast
  qed
  then have tr: "trim t \<noteq> []" by (simp add: trim_empty_iff)
  have star: "\<not> isAlnum (CHR ''*'')" and us: "\<not> isAlnum (CHR ''_'')"
    by (simp_all add: isAlnum_def)
  have m1: "\<not> str_includes ''***'' t"
  proof
    assume "str_includes ''***'' t"
    then have "CHR ''*'' \<in> set t" using str_includes_set by fastforce
    with al star show False by blast
  qed
  have m2: "\<not> str_includes ''YOUR_TOKEN'' t"
  proof
    assume "str_includes ''YOUR_TOKEN'' t"
    then have "CHR ''_'' \<in> set t" using str_includes_set by fastforce
    with al us show False by blast
  qed
  from h ne tr m1 m2 tc show "validateOAuthToken t"
    by (simp add: validateOAuthToken_def tokenRegex_test_def)
qed


text \<open>The theorem at a token with a marker, which is rejected, and at a token of 20
  letters and digits, which is accepted.\<close>

theorem validateOAuthToken_rejects_and_accepts_witness:
  "\<not> validateOAuthToken ''PLACEHOLDER123456789'' \<and> validateOAuthToken ''abcdefghij0123456789''"
  using validateOAuthToken_rejects_and_accepts [of "''PLACEHOLDER123456789''" "''abcdefghij0123456789''"]
  by (simp add: isAlnum_def)


subsection \<open>Names and descriptions\<close>

text \<open>
  Claim C8. \<open>buildTournamentName 7 Night\<close> is \<open>LMAO Night '7'\<close>, which contains
  \<open>Night\<close> and \<open>7\<close>. \<open>buildDescription\<close> replaces \<open>{TYPE}\<close> and then
  \<open>{DAY_NUM}\<close>, each by one \<open>replace\<close>; a \<open>replace\<close> rewrites the first occurrence
  of its pattern and keeps everything after it, later occurrences included, and leaves a
  text without the pattern as it is. The template \<open>Battle {TYPE} #{DAY_NUM}\<close> with day
  number 3 and type Day gives \<open>Battle Day #3\<close>.
\<close>

theorem name_and_description_formatting:
  "buildTournamentName 7 Night = ''LMAO Night '' @ [CHR 0x27] @ ''7'' @ [CHR 0x27]
   \<and> str_includes ''Night'' (buildTournamentName 7 Night)
   \<and> str_includes ''7'' (buildTournamentName 7 Night)
   \<and> buildDescription dayNum type template =
       replace ''{DAY_NUM}'' (String dayNum) (replace ''{TYPE}'' (type_label type) template)
   \<and> (\<not> str_includes pat (a @ butlast pat) \<longrightarrow> replace pat rep (a @ pat @ b) = a @ rep @ b)
   \<and> (\<not> str_includes pat s \<longrightarrow> replace pat rep s = s)
   \<and> buildDescription 3 Day ''Battle {TYPE} #{DAY_NUM}'' = ''Battle Day #3''"
proof -
  have n: "buildTournamentName 7 Night = ''LMAO Night '' @ [CHR 0x27] @ ''7'' @ [CHR 0x27]"
    by (simp add: buildTournamentName_def String_def decimal.simps)
  have d: "buildDescription 3 Day ''Battle {TYPE} #{DAY_NUM}'' = ''Battle Day #3''"
    by (simp add: buildDescription_def String_def decimal.simps)
  show ?thesis
    unfolding n by (simp add: d replace_first_occurrence replace_absent) (simp add: buildDescription_def)
qed


text \<open>The theorem at templates with a placeholder twice and with none.\<close>

theorem name_and_description_formatting_witness:
  "replace ''{TYPE}'' ''Day'' ''{TYPE} vs {TYPE}'' = ''Day vs {TYPE}''
   \<and> replace ''{TYPE}'' ''Day'' ''no placeholder'' = ''no placeholder''
   \<and> buildDescription 3 Day ''{TYPE} {TYPE} {DAY_NUM} {DAY_NUM}'' = ''Day {TYPE} 3 {DAY_NUM}''"
  using name_and_description_formatting [of 3 Day "''{TYPE} {TYPE} {DAY_NUM} {DAY_NUM}''"
          "''{TYPE}''" "[]" "''Day''" "'' vs {TYPE}''" "''no placeholder''"]
  by (simp add: String_def decimal.simps)


subsection \<open>The schedule\<close>

text \<open>
  Claim C3, as amended. For every clock value and every first day number, the schedule
  loop of \<open>main\<close> produces fourteen tournaments, Day then Night for each of seven days in
  the order of the days, and the day number at offset \<open>k\<close> is the number the script
  computes as \<open>startDayNum + k\<close>. When \<open>startDayNum\<close> and \<open>startDayNum + 6\<close> are at most
  \<open>2 ^ 53\<close> in magnitude, where the addition of numbers is exact, the day numbers are
  \<open>startDayNum\<close>, \<open>startDayNum\<close>, \<open>startDayNum + 1\<close>, ... , \<open>startDayNum + 6\<close>,
  \<open>startDayNum + 6\<close>; for \<open>startDayNum = 5\<close> these are 5, 5, 6, 6, ..., 11, 11.
\<close>

theorem schedule_is_fourteen_in_order:
  "length (schedule_loop now startDayNum settings 0 []) = 14
   \<and> map t_type (schedule_loop now startDayNum settings 0 []) =
       [Day, Night, Day, Night, Day, Night, Day, Night, Day, Night, Day, Night, Day, Night]
   \<and> map t_dayNum (schedule_loop now startDayNum settings 0 []) =
       [num_add startDayNum 0, num_add startDayNum 0, num_add startDayNum 1,
        num_add startDayNum 1, num_add startDayNum 2, num_add startDayNum 2,
        num_add startDayNum 3, num_add startDayNum 3, num_add startDayNum 4,
        num_add startDayNum 4, num_add startDayNum 5, num_add startDayNum 5,
        num_add startDayNum 6, num_add startDayNum 6]
   \<and> (- (2 ^ 53) \<le> startDayNum \<and> startDayNum + 6 \<le> 2 ^ 53 \<longrightarrow>
        map t_dayNum (schedule_loop now startDayNum settings 0 []) =
          [startDayNum, startDayNum, startDayNum + 1, startDayNum + 1, startDayNum + 2,
           startDayNum + 2, startDayNum + 3, startDayNum + 3, startDayNum + 4, startDayNum + 4,
           startDayNum + 5, startDayNum + 5, startDayNum + 6, startDayNum + 6])
   \<and> map t_dayNum (schedule_loop now 5 settings 0 []) =
       [5, 5, 6, 6, 7, 7, 8, 8, 9, 9, 10, 10, 11, 11]"
proof -
  have five: "map t_dayNum (schedule_loop now 5 settings 0 []) =
       [5, 5, 6, 6, 7, 7, 8, 8, 9, 9, 10, 10, 11, 11]"
    using schedule_dayNums_safe [of 5 now settings] by simp
  show ?thesis
    using schedule_dayNums_safe [of startDayNum now settings]
    by (simp add: schedule_length schedule_types five) (simp add: schedule_dayNums)
qed

text \<open>The theorem at the greatest first day number of the exact range, \<open>2 ^ 53 - 6\<close>.\<close>

theorem schedule_is_fourteen_in_order_witness:
  "map t_dayNum (schedule_loop 0 9007199254740986 example_settings 0 []) =
     [9007199254740986, 9007199254740986, 9007199254740987, 9007199254740987,
      9007199254740988, 9007199254740988, 9007199254740989, 9007199254740989,
      9007199254740990, 9007199254740990, 9007199254740991, 9007199254740991,
      9007199254740992, 9007199254740992]
   \<and> map t_type (schedule_loop 0 9007199254740986 example_settings 0 []) =
       [Day, Night, Day, Night, Day, Night, Day, Night, Day, Night, Day, Night, Day, Night]"
  using schedule_is_fourteen_in_order [of 0 9007199254740986 example_settings]
  by (simp add: num_add_def to_double_def nearest_double_def)

text \<open>
  Without the amendment the claim fails: from the first day number \<open>2 ^ 53\<close> on, doubles
  are two apart, and the fourteen day numbers are \<open>2 ^ 53\<close> four times, \<open>2 ^ 53 + 2\<close>
  twice, \<open>2 ^ 53 + 4\<close> six times and \<open>2 ^ 53 + 6\<close> twice, not \<open>2 ^ 53\<close>, \<open>2 ^ 53\<close>,
  \<open>2 ^ 53 + 1\<close>, \<open>2 ^ 53 + 1\<close> and so on.
\<close>

theorem schedule_day_numbers_counterexample:
  "map t_dayNum (schedule_loop 0 9007199254740992 example_settings 0 []) =
     [9007199254740992, 9007199254740992, 9007199254740992, 9007199254740992,
      9007199254740994, 9007199254740994, 9007199254740996, 9007199254740996,
      9007199254740996, 9007199254740996, 9007199254740996, 9007199254740996,
      9007199254740998, 9007199254740998]
   \<and> map t_dayNum (schedule_loop 0 9007199254740992 example_settings 0 []) \<noteq>
     [9007199254740992, 9007199254740992, 9007199254740992 + 1, 9007199254740992 + 1,
      9007199254740992 + 2, 9007199254740992 + 2, 9007199254740992 + 3, 9007199254740992 + 3,
      9007199254740992 + 4, 9007199254740992 + 4, 9007199254740992 + 5, 9007199254740992 + 5,
      9007199254740992 + 6, 9007199254740992 + 6]"
  using num_add_beyond(3) unfolding schedule_dayNums by simp

subsection \<open>The submission client\<close>

text \<open>
  Claim C5. \<open>createTeamBattle\<close> always resolves and never rejects. A token that fails
  validation gives \<open>ok: false\<close> with the fixed message and leaves the trace as it was, so
  no request is made. A response with a status outside 200 to 299 and a readable body
  gives \<open>ok: false\<close> with the error \<open>status: body\<close>. A value thrown by \<open>fetch\<close>, by
  \<open>res.text()\<close> or by \<open>res.json()\<close> gives \<open>ok: false\<close> with that value as the error.
\<close>

theorem createTeamBattle_never_throws:
  "(\<exists>r. fst (createTeamBattle net params tr) = Inr r)
   \<and> (\<not> validateOAuthToken (p_token params) \<longrightarrow>
        createTeamBattle net params tr =
          (Inr \<lparr>ok = False, url = None,
                error = Some ''Invalid or missing OAuth token. Please set a valid OAUTH_TOKEN environment variable.''\<rparr>,
           tr))
   \<and> (validateOAuthToken (p_token params) \<and> \<not> p_dryRun params
        \<and> net tr (api_request params) = Responded res \<and> \<not> res_ok res \<and> res_text res = Inr body \<longrightarrow>
        fst (createTeamBattle net params tr) =
          Inr \<lparr>ok = False, url = None, error = Some (String (res_status res) @ '': '' @ body)\<rparr>)
   \<and> (validateOAuthToken (p_token params) \<and> \<not> p_dryRun params
        \<and> (net tr (api_request params) = Rejected e
           \<or> (\<exists>res. net tr (api_request params) = Responded res
                 \<and> (if res_ok res then res_json_id res = Inl e else res_text res = Inl e))) \<longrightarrow>
        fst (createTeamBattle net params tr) = Inr \<lparr>ok = False, url = None, error = Some e\<rparr>)"
  by (auto simp: createTeamBattle_def try_block_def split: sum.splits if_splits)


text \<open>The theorem at a token that fails validation, at a server that answers 429 and at
  a network that is down.\<close>

theorem createTeamBattle_never_throws_witness:
  "createTeamBattle net_down (submission_params ''abc'' example_settings False example_tournament) [] =
     (Inr \<lparr>ok = False, url = None,
           error = Some ''Invalid or missing OAuth token. Please set a valid OAUTH_TOKEN environment variable.''\<rparr>,
      [])
   \<and> fst (createTeamBattle net_limited
            (submission_params ''abcdefghij0123456789'' example_settings False example_tournament) []) =
       Inr \<lparr>ok = False, url = None, error = Some ''429: Too many requests''\<rparr>
   \<and> fst (createTeamBattle net_down
            (submission_params ''abcdefghij0123456789'' example_settings False example_tournament) []) =
       Inr \<lparr>ok = False, url = None, error = Some ''FetchError: request failed''\<rparr>"
proof -
  let ?bad = "submission_params ''abc'' example_settings False example_tournament"
  let ?good = "submission_params ''abcdefghij0123456789'' example_settings False example_tournament"
  let ?res = "\<lparr>res_status = 429, res_text = Inr ''Too many requests'',
               res_json_id = Inl ''SyntaxError: Unexpected token'', res_location = None\<rparr>"
  have s429: "String 429 = ''429''"
    by (simp add: String_def decimal.simps)
  show ?thesis
    using createTeamBattle_never_throws [of net_down ?bad "[]" ?res "''Too many requests''" "''x''"]
      createTeamBattle_never_throws [of net_limited ?good "[]" ?res "''Too many requests''" "''x''"]
      createTeamBattle_never_throws [of net_down ?good "[]" ?res "''Too many requests''"
        "''FetchError: request failed''"]
      example_token_valid short_token_invalid
    by (simp add: submission_params_sel net_limited_def net_down_def res_ok_def s429)
qed


text \<open>
  Claim C4, as amended. With the dry-run flag, \<open>createTeamBattle\<close> makes no request. When
  the token passes validation as well, every submission gives \<open>ok: true\<close> with the URL
  \<open>server/team/hostTeamId/arena/pending\<close>; and a dry run that gets past the guard counts
  fourteen successes, ends with exit code 0, makes no request and writes the settings and
  the state that a run without the flag writes when its fourteen submissions succeed.
\<close>

theorem dry_run_with_valid_token:
  "(p_dryRun params \<longrightarrow> snd (createTeamBattle net params tr) = tr)
   \<and> (validateOAuthToken (p_token params) \<and> p_dryRun params \<longrightarrow>
        fst (createTeamBattle net params tr) =
          Inr \<lparr>ok = True,
               url = Some (p_server params @ ''/team/'' @ p_hostTeamId params @ ''/arena/pending''),
               error = None\<rparr>)
   \<and> (validateOAuthToken tok \<and> OAUTH_TOKEN env = Some tok \<and> dryRun_of env
        \<and> settings_file env = Inr settings
        \<and> lastCreationDate (loadState env) \<noteq> today_of (clock env) \<longrightarrow>
          ending (main net env) = Finished (Completed 14 0)
          \<and> exit_code (main net env) = 0
          \<and> fetches (trace (main net env)) = []
          \<and> writes (trace (main net env)) =
              [WriteJSON ''config/tournament-settings.json''
                 (SettingsData (settings\<lparr>lastTournamentDayNum := num_add (num_add (lastTournamentDayNum settings) 1) 6\<rparr>)),
               WriteJSON ''config/perfect-tournament.state.json''
                 (StateData ((loadState env)\<lparr>lastCreationDate := today_of (clock env)\<rparr>))]
          \<and> (ending (main net' (env\<lparr>DRY_RUN := None\<rparr>)) = Finished (Completed 14 0) \<longrightarrow>
               writes (trace (main net' (env\<lparr>DRY_RUN := None\<rparr>))) = writes (trace (main net env))))"
proof (intro conjI impI)
  assume "p_dryRun params"
  then show "snd (createTeamBattle net params tr) = tr"
    by (simp add: createTeamBattle_def)
next
  assume "validateOAuthToken (p_token params) \<and> p_dryRun params"
  then show "fst (createTeamBattle net params tr) =
          Inr \<lparr>ok = True,
               url = Some (p_server params @ ''/team/'' @ p_hostTeamId params @ ''/arena/pending''),
               error = None\<rparr>"
    by (simp add: createTeamBattle_dry)
next
  assume h: "validateOAuthToken tok \<and> OAUTH_TOKEN env = Some tok \<and> dryRun_of env
        \<and> settings_file env = Inr settings
        \<and> lastCreationDate (loadState env) \<noteq> today_of (clock env)"
  then have m: "main net env =
     \<lparr>exit_code = 0, ending = Finished (Completed 14 0),
      trace = replicate 13 (Delay 10000) @
        [WriteJSON ''config/tournament-settings.json''
           (SettingsData (settings\<lparr>lastTournamentDayNum := num_add (num_add (lastTournamentDayNum settings) 1) 6\<rparr>)),
         WriteJSON ''config/perfect-tournament.state.json''
           (StateData ((loadState env)\<lparr>lastCreationDate := today_of (clock env)\<rparr>))]\<rparr>"
    using main_dry_valid [of tok env settings net] by simp
  show "ending (main net env) = Finished (Completed 14 0)" by (simp add: m)
  show "exit_code (main net env) = 0" by (simp add: m)
  show "fetches (trace (main net env)) = []" by (simp add: m fetches_def)
  show w: "writes (trace (main net env)) =
              [WriteJSON ''config/tournament-settings.json''
                 (SettingsData (settings\<lparr>lastTournamentDayNum := num_add (num_add (lastTournamentDayNum settings) 1) 6\<rparr>)),
               WriteJSON ''config/perfect-tournament.state.json''
                 (StateData ((loadState env)\<lparr>lastCreationDate := today_of (clock env)\<rparr>))]"
    by (simp add: m writes_def)
  assume r: "ending (main net' (env\<lparr>DRY_RUN := None\<rparr>)) = Finished (Completed 14 0)"
  let ?real = "env\<lparr>DRY_RUN := None\<rparr>"
  show "writes (trace (main net' ?real)) = writes (trace (main net env))"
  proof (cases net' ?real rule: main_cases)
    case (Abort e)
    with r show ?thesis by simp
  next
    case (Skip tok s)
    with r show ?thesis by simp
  next
    case (Run tok' s sc fc tr)
    from Run(6) have "writes tr = []" by (rule writes_of_submissions)
    with Run r h show ?thesis
      by (simp add: w writes_append loadState_def) (simp add: writes_def)
  qed
qed


text \<open>The theorem at a dry run on 1970-01-01, beside the run without the flag against a
  server that creates every tournament.\<close>

theorem dry_run_with_valid_token_witness:
  "createTeamBattle net_down
     (submission_params ''abcdefghij0123456789'' example_settings True example_tournament) [] =
     (Inr \<lparr>ok = True, url = Some ''https://lichess.org/team/lmao-teamfights/arena/pending'',
           error = None\<rparr>, [])
   \<and> ending (main net_down (example_env\<lparr>DRY_RUN := Some ''1''\<rparr>)) = Finished (Completed 14 0)
   \<and> exit_code (main net_down (example_env\<lparr>DRY_RUN := Some ''1''\<rparr>)) = 0
   \<and> fetches (trace (main net_down (example_env\<lparr>DRY_RUN := Some ''1''\<rparr>))) = []
   \<and> writes (trace (main net_down (example_env\<lparr>DRY_RUN := Some ''1''\<rparr>))) =
       [WriteJSON ''config/tournament-settings.json''
          (SettingsData (example_settings\<lparr>lastTournamentDayNum := 11\<rparr>)),
        WriteJSON ''config/perfect-tournament.state.json''
          (StateData \<lparr>lastCreationDate = ''1970-01-01''\<rparr>)]
   \<and> ending (main net_created example_env) = Finished (Completed 14 0)
   \<and> writes (trace (main net_created example_env)) =
       writes (trace (main net_down (example_env\<lparr>DRY_RUN := Some ''1''\<rparr>)))"
proof -
  let ?p = "submission_params ''abcdefghij0123456789'' example_settings True example_tournament"
  let ?dry = "example_env\<lparr>DRY_RUN := Some ''1''\<rparr>"
  have l: "lastTournamentDayNum example_settings = 4" "hostTeamId example_settings = ''lmao-teamfights''"
    by (simp_all add: example_settings_def)
  have real: "example_env\<lparr>DRY_RUN := Some ''1'', DRY_RUN := None\<rparr> = example_env"
    by (simp add: example_env_def)
  have r: "ending (main net_created example_env) = Finished (Completed 14 0)"
    using main_created [OF example_token_valid, of example_env example_settings]
    by (simp add: example_env_def dryRun_of_def loadState_def today_of_epoch)
  have c: "createTeamBattle net_down ?p [] =
           (fst (createTeamBattle net_down ?p []), snd (createTeamBattle net_down ?p []))"
    by simp
  show ?thesis
    using dry_run_with_valid_token [of ?p net_down "[]" "''abcdefghij0123456789''" ?dry
        example_settings net_created] example_token_valid r
    by (subst c) (simp add: submission_params_sel example_env_def dryRun_of_def loadState_def
                    today_of_epoch l real num_add_small)
qed


text \<open>
  Without the amendment the claim fails: with the dry-run flag and the token \<open>abc\<close>,
  which fails validation, the submission gives \<open>ok: false\<close>.
\<close>

theorem dry_run_invalid_token_counterexample:
  "p_dryRun (submission_params ''abc'' example_settings True example_tournament)
   \<and> fst (createTeamBattle net_down
            (submission_params ''abc'' example_settings True example_tournament) []) =
       Inr \<lparr>ok = False, url = None,
            error = Some ''Invalid or missing OAuth token. Please set a valid OAUTH_TOKEN environment variable.''\<rparr>"
  using short_token_invalid by (simp add: createTeamBattle_invalid submission_params_sel)


text \<open>
  Claim C10, as amended. For every token that fails validation, \<open>createTeamBattle\<close>
  gives \<open>ok: false\<close> with the fixed message, with or without the dry-run flag. A run, dry
  or not, whose token is not empty and fails validation, whose settings are readable and
  which gets past the guard counts fourteen failures, makes no request, writes nothing
  and ends with exit code 1.
\<close>

theorem invalid_token_fails_every_submission:
  assumes "\<not> validateOAuthToken tok"
  shows "(p_token params = tok \<longrightarrow>
           createTeamBattle net params tr =
             (Inr \<lparr>ok = False, url = None,
                   error = Some ''Invalid or missing OAuth token. Please set a valid OAUTH_TOKEN environment variable.''\<rparr>,
              tr))
    \<and> (OAUTH_TOKEN env = Some tok \<and> tok \<noteq> [] \<and> settings_file env = Inr settings
        \<and> lastCreationDate (loadState env) \<noteq> today_of (clock env) \<longrightarrow>
          ending (main net env) = Finished (Completed 0 14)
          \<and> writes (trace (main net env)) = []
          \<and> fetches (trace (main net env)) = []
          \<and> exit_code (main net env) = 1)"
proof (intro conjI impI)
  assume "p_token params = tok"
  with assms show "createTeamBattle net params tr =
             (Inr \<lparr>ok = False, url = None,
                   error = Some ''Invalid or missing OAuth token. Please set a valid OAUTH_TOKEN environment variable.''\<rparr>,
              tr)"
    by (simp add: createTeamBattle_invalid)
next
  assume h: "OAUTH_TOKEN env = Some tok \<and> tok \<noteq> [] \<and> settings_file env = Inr settings
        \<and> lastCreationDate (loadState env) \<noteq> today_of (clock env)"
  then have m: "main net env =
     \<lparr>exit_code = 1, ending = Finished (Completed 0 14), trace = replicate 13 (Delay 10000)\<rparr>"
    using main_invalid [OF assms, of env settings net] by simp
  show "ending (main net env) = Finished (Completed 0 14)" by (simp add: m)
  show "writes (trace (main net env)) = []" by (simp add: m writes_def)
  show "fetches (trace (main net env)) = []" by (simp add: m fetches_def)
  show "exit_code (main net env) = 1" by (simp add: m)
qed


text \<open>The theorem at a dry run on 1970-01-01 with the token \<open>abc\<close>.\<close>

theorem invalid_token_fails_every_submission_witness:
  "createTeamBattle net_created
     (submission_params ''abc'' example_settings True example_tournament) [] =
     (Inr \<lparr>ok = False, url = None,
           error = Some ''Invalid or missing OAuth token. Please set a valid OAUTH_TOKEN environment variable.''\<rparr>,
      [])
   \<and> ending (main net_created (example_env\<lparr>OAUTH_TOKEN := Some ''abc'', DRY_RUN := Some ''1''\<rparr>))
       = Finished (Completed 0 14)
   \<and> writes (trace (main net_created (example_env\<lparr>OAUTH_TOKEN := Some ''abc'', DRY_RUN := Some ''1''\<rparr>))) = []
   \<and> exit_code (main net_created (example_env\<lparr>OAUTH_TOKEN := Some ''abc'', DRY_RUN := Some ''1''\<rparr>)) = 1"
  using invalid_token_fails_every_submission [OF short_token_invalid,
      of "submission_params ''abc'' example_settings True example_tournament" net_created "[]"
         "example_env\<lparr>OAUTH_TOKEN := Some ''abc'', DRY_RUN := Some ''1''\<rparr>" example_settings]
  by (simp add: submission_params_sel example_env_def loadState_def today_of_epoch)


text \<open>
  Without the amendment the claim fails: a dry run with the token \<open>abc\<close> whose state
  file holds the date of today stops at the guard, with no failure counted and exit
  code 0.
\<close>

theorem invalid_token_dry_run_counterexample:
  "\<not> validateOAuthToken ''abc''
   \<and> dryRun_of (example_env\<lparr>OAUTH_TOKEN := Some ''abc'', DRY_RUN := Some ''1'',
        state_file := Some \<lparr>lastCreationDate = ''1970-01-01''\<rparr>\<rparr>)
   \<and> ending (main net_created (example_env\<lparr>OAUTH_TOKEN := Some ''abc'', DRY_RUN := Some ''1'',
        state_file := Some \<lparr>lastCreationDate = ''1970-01-01''\<rparr>\<rparr>)) = Finished Skipped
   \<and> exit_code (main net_created (example_env\<lparr>OAUTH_TOKEN := Some ''abc'', DRY_RUN := Some ''1'',
        state_file := Some \<lparr>lastCreationDate = ''1970-01-01''\<rparr>\<rparr>)) = 0"
  using main_skip [of "example_env\<lparr>OAUTH_TOKEN := Some ''abc'', DRY_RUN := Some ''1'',
        state_file := Some \<lparr>lastCreationDate = ''1970-01-01''\<rparr>\<rparr>" "''abc''" example_settings net_created]
    short_token_invalid
  by (simp add: example_env_def loadState_def today_of_epoch dryRun_of_def)


subsection \<open>Exit codes\<close>



subsection \<open>Invited teams\<close>

text \<open>
  Claim C9. The parameters \<open>main\<close> hands to \<open>createTeamBattle\<close> list the host team alone
  as invited team; the client filters it out, so the request body built from them, in a
  dry run or not, has no \<open>teams[]\<close> field, and neither has any request in the trace of a
  run.
\<close>

theorem no_team_invited:
  "p_teams (submission_params oauthToken settings dryRun t) = [hostTeamId settings]
   \<and> invitedTeams (submission_params oauthToken settings dryRun t) = []
   \<and> teams_entries (request_body (submission_params oauthToken settings dryRun t)) = []
   \<and> list_all (\<lambda>e. case e of Fetch r \<Rightarrow> teams_entries (req_body r) = [] | _ \<Rightarrow> True)
        (trace (main net env))"
proof -
  have "list_all (\<lambda>e. case e of Fetch r \<Rightarrow> teams_entries (req_body r) = [] | _ \<Rightarrow> True)
        (trace (main net env))"
  proof (cases net env rule: main_cases)
    case (Abort e)
    then show ?thesis by simp
  next
    case (Skip tok s)
    then show ?thesis by simp
  next
    case (Run tok s sc fc tr)
    from Run(6) have "list_all (\<lambda>e. case e of Fetch r \<Rightarrow> teams_entries (req_body r) = [] | _ \<Rightarrow> True) tr"
      by (rule list.pred_mono_strong) (auto simp: api_request_def teams_entries_submission)
    with Run(7) show ?thesis by simp
  qed
  then show ?thesis
    by (simp add: teams_entries_submission submission_params_sel invitedTeams_def)
qed

end
